theory Spec2Isabelle
  imports Complex_Main "HOL-Library.AList"
begin

section \<open>Data model (jmap.go, main.go)\<close>

text \<open>
  The structs of \<^verbatim>\<open>jmap.go\<close> become records. Go field names are kept; a field name
  that two structs share (\<^verbatim>\<open>ID\<close>, \<^verbatim>\<open>Name\<close>) is prefixed with its struct. A Go
  \<^verbatim>\<open>map[string]T\<close> is a partial function from strings.
\<close>

record Mailbox =
  Mailbox_ID :: string
  Mailbox_Name :: string
  Role :: string

record EmailAddress =
  Address_Email :: string
  Address_Name :: string

record HTMLBodyPart =
  PartID :: string
  PartType :: string

record BodyValue =
  Value :: string
  IsHTML :: bool

record Email =
  Email_ID :: string
  Subject :: string
  ReceivedAt :: string
  From :: "EmailAddress list"
  HTMLBody :: "HTMLBodyPart list"
  BodyValues :: "string \<rightharpoonup> BodyValue"
  MailboxIds :: "string \<rightharpoonup> bool"

text \<open>
  \<^verbatim>\<open>ProcessResult\<close> of \<^verbatim>\<open>main.go\<close>. The counters are Go \<^verbatim>\<open>int\<close>s that only ever
  count elements of one slice, so they stay below the machine bound and are modelled as
  unbounded integers.
\<close>

record ProcessResult =
  TotalCount :: int
  ProcessedCount :: int
  FailedCount :: int

section \<open>extractHTMLContent (main.go)\<close>

text \<open>
  \<^verbatim>\<open>
  func extractHTMLContent(email Email) string {
      if len(email.HTMLBody) == 0 { return "" }
      partID := email.HTMLBody[0].PartID
      if bodyValue, ok := email.BodyValues[partID]; ok { return bodyValue.Value }
      return ""
  }
  \<close>
  The index \<^verbatim>\<open>[0]\<close> is read only after the length test, so it is always in range.
\<close>

definition extractHTMLContent :: "Email \<Rightarrow> string" where
  "extractHTMLContent email =
     (if length (HTMLBody email) = 0 then ''''
      else (let partID = PartID (HTMLBody email ! 0)
            in (case BodyValues email partID of
                  Some bodyValue \<Rightarrow> Value bodyValue
                | None \<Rightarrow> '''')))"

section \<open>Errors, panics and the two service interfaces\<close>

text \<open>
  A Go \<^verbatim>\<open>error\<close> is modelled by how it was made: \<open>Errorf msg\<close> is
  \<^verbatim>\<open>fmt.Errorf\<close> (or \<^verbatim>\<open>errors.New\<close>) with the formatted message \<open>msg\<close> and no
  wrapped error; \<open>Wrapf prefix err\<close> is \<^verbatim>\<open>fmt.Errorf(prefix + "%w", err)\<close>, the
  only way the source wraps; \<open>LibError msg\<close> is an error handed back by a library call
  (HTTP, JSON, time, the browser, the file system). \<open>Error\<close> is the message
  \<^verbatim>\<open>err.Error()\<close>.
\<close>

datatype error = Errorf string | Wrapf string error | LibError string

primrec Error :: "error \<Rightarrow> string" where
  "Error (Errorf msg) = msg"
| "Error (Wrapf prefix err) = prefix @ Error err"
| "Error (LibError msg) = msg"

text \<open>
  A call returns a value, returns a non-nil error, or panics (an index out of range, a
  nil pointer dereference); a panic unwinds through every caller in this program, since
  nothing recovers.
\<close>

datatype 'a outcome = Ok 'a | Err error | Panic string

text \<open>
  \<^verbatim>\<open>interfaces.go\<close>: the two interfaces \<^verbatim>\<open>processEmails\<close> is written against. An
  implementation is any record of functions over the outside world \<open>'w\<close> (the mail
  server, the file system, the browser): each method takes the world and returns the
  world it leaves. \<^verbatim>\<open>FindMailboxByName\<close> returns a pointer, which may be nil.

  \<^verbatim>\<open>interfaces.go\<close> declares \<^verbatim>\<open>GenerateScreenshot(timestamp, emailID, htmlContent)\<close>,
  but the one call in \<^verbatim>\<open>processEmails\<close>, \<^verbatim>\<open>generator.GenerateScreenshot(emailID,
  htmlContent)\<close>, and the implementation in \<^verbatim>\<open>screenshot.go\<close> both have two
  parameters; the model follows the call and the implementation.
\<close>

record 'w EmailClient =
  FindMailboxByName :: "string \<Rightarrow> 'w \<Rightarrow> Mailbox option outcome \<times> 'w"
  GetEmailsInMailbox :: "string \<Rightarrow> int \<Rightarrow> 'w \<Rightarrow> string list outcome \<times> 'w"
  GetEmails :: "string list \<Rightarrow> 'w \<Rightarrow> Email list outcome \<times> 'w"
  MoveEmail :: "string \<Rightarrow> string \<Rightarrow> string \<Rightarrow> 'w \<Rightarrow> unit outcome \<times> 'w"

record 'w ScreenshotService =
  GenerateScreenshot :: "string \<Rightarrow> string \<Rightarrow> 'w \<Rightarrow> string outcome \<times> 'w"

section \<open>The run state: world, call log, output\<close>

text \<open>
  \<^verbatim>\<open>processEmails\<close> touches the world only through the two interfaces and writes to
  its \<^verbatim>\<open>output\<close> writer. The state threaded through the model holds the world, the
  log of interface calls in the order they were made (each with its arguments), and what
  was written to \<^verbatim>\<open>output\<close> (each \<^verbatim>\<open>Fprintf\<close>/\<^verbatim>\<open>Fprintln\<close> as one entry carrying
  its arguments).
\<close>

datatype call =
    CallFindMailboxByName string
  | CallGetEmailsInMailbox string int
  | CallGetEmails "string list"
  | CallGenerateScreenshot string string
  | CallMoveEmail string string string

datatype printed =
    NoEmailsFound string
  | FoundEmails int string
  | DryRunMode
  | WouldProcess int
  | DryRunEmailID int string
  | ProcessingEmail int int string
  | FailedToFetch error
  | EmailNotFound
  | PrintSubject string
  | NoHTMLContent
  | FailedToGenerate error
  | ScreenshotGenerated string
  | FailedToMove error
  | MovedToArchive

record 'w run =
  world :: 'w
  calls :: "call list"
  outputLog :: "printed list"

definition Fprint :: "printed \<Rightarrow> 'w run \<Rightarrow> 'w run" where
  "Fprint line s = s\<lparr>outputLog := outputLog s @ [line]\<rparr>"

definition call_FindMailboxByName ::
  "'w EmailClient \<Rightarrow> string \<Rightarrow> 'w run \<Rightarrow> Mailbox option outcome \<times> 'w run" where
  "call_FindMailboxByName client name s =
     (case FindMailboxByName client name (world s) of
        (r, w) \<Rightarrow> (r, s\<lparr>world := w, calls := calls s @ [CallFindMailboxByName name]\<rparr>))"

definition call_GetEmailsInMailbox ::
  "'w EmailClient \<Rightarrow> string \<Rightarrow> int \<Rightarrow> 'w run \<Rightarrow> string list outcome \<times> 'w run" where
  "call_GetEmailsInMailbox client mailboxID limit s =
     (case GetEmailsInMailbox client mailboxID limit (world s) of
        (r, w) \<Rightarrow> (r, s\<lparr>world := w, calls := calls s @ [CallGetEmailsInMailbox mailboxID limit]\<rparr>))"

definition call_GetEmails ::
  "'w EmailClient \<Rightarrow> string list \<Rightarrow> 'w run \<Rightarrow> Email list outcome \<times> 'w run" where
  "call_GetEmails client emailIDs s =
     (case GetEmails client emailIDs (world s) of
        (r, w) \<Rightarrow> (r, s\<lparr>world := w, calls := calls s @ [CallGetEmails emailIDs]\<rparr>))"

definition call_GenerateScreenshot ::
  "'w ScreenshotService \<Rightarrow> string \<Rightarrow> string \<Rightarrow> 'w run \<Rightarrow> string outcome \<times> 'w run" where
  "call_GenerateScreenshot generator timestamp htmlContent s =
     (case GenerateScreenshot generator timestamp htmlContent (world s) of
        (r, w) \<Rightarrow>
          (r, s\<lparr>world := w, calls := calls s @ [CallGenerateScreenshot timestamp htmlContent]\<rparr>))"

definition call_MoveEmail ::
  "'w EmailClient \<Rightarrow> string \<Rightarrow> string \<Rightarrow> string \<Rightarrow> 'w run \<Rightarrow> unit outcome \<times> 'w run" where
  "call_MoveEmail client emailID sourceMailboxID targetMailboxID s =
     (case MoveEmail client emailID sourceMailboxID targetMailboxID (world s) of
        (r, w) \<Rightarrow>
          (r, s\<lparr>world := w,
                 calls := calls s @ [CallMoveEmail emailID sourceMailboxID targetMailboxID]\<rparr>))"

section \<open>processEmails (main.go)\<close>

definition sourceFolder :: string where
  "sourceFolder = ''_aar''"

definition archiveFolder :: string where
  "archiveFolder = ''_aar_processed''"

definition nilPointer :: string where
  "nilPointer = ''invalid memory address or nil pointer dereference''"

text \<open>The two loop counters, \<^verbatim>\<open>var processedCount, failedCount int\<close>.\<close>

record counters =
  processedCount :: int
  failedCount :: int

text \<open>An iteration of a loop either reaches the next one or panics.\<close>

datatype 'a iteration = Next 'a | Panicked string

text \<open>
  The body of \<^verbatim>\<open>for i, emailID := range emailIDs\<close> (main.go, lines 107 to 153). Every
  \<^verbatim>\<open>failedCount++; continue\<close> is a \<open>Next\<close> with the failed counter incremented;
  the fall-through at the end increments the processed counter. The arguments of
  \<^verbatim>\<open>client.MoveEmail(emailID, sourceMailbox.ID, archiveMailbox.ID)\<close> are evaluated
  before the call, so a nil \<^verbatim>\<open>archiveMailbox\<close> panics there, after the render.
\<close>

definition processEmail ::
  "'w EmailClient \<Rightarrow> 'w ScreenshotService \<Rightarrow> Mailbox \<Rightarrow> Mailbox option \<Rightarrow> int \<Rightarrow> int \<Rightarrow> string
   \<Rightarrow> counters \<Rightarrow> 'w run \<Rightarrow> counters iteration \<times> 'w run" where
  "processEmail client generator sourceMailbox archiveMailbox emailCount i emailID cnt s0 =
     (let failed = cnt\<lparr>failedCount := failedCount cnt + 1\<rparr>;
          s1 = Fprint (ProcessingEmail (i + 1) emailCount emailID) s0
      in case call_GetEmails client [emailID] s1 of
           (Panic m, s2) \<Rightarrow> (Panicked m, s2)
         | (Err err, s2) \<Rightarrow> (Next failed, Fprint (FailedToFetch err) s2)
         | (Ok emails, s2) \<Rightarrow>
             if length emails = 0 then (Next failed, Fprint EmailNotFound s2)
             else
               (let email = emails ! 0;
                    s3 = Fprint (PrintSubject (Subject email)) s2;
                    htmlContent = extractHTMLContent email
                in if htmlContent = '''' then (Next failed, Fprint NoHTMLContent s3)
                   else
                     (case call_GenerateScreenshot generator emailID htmlContent s3 of
                        (Panic m, s4) \<Rightarrow> (Panicked m, s4)
                      | (Err err, s4) \<Rightarrow> (Next failed, Fprint (FailedToGenerate err) s4)
                      | (Ok screenshotPath, s4) \<Rightarrow>
                          (let s5 = Fprint (ScreenshotGenerated screenshotPath) s4
                           in case archiveMailbox of
                                None \<Rightarrow> (Panicked nilPointer, s5)
                              | Some archive \<Rightarrow>
                                  (case call_MoveEmail client emailID (Mailbox_ID sourceMailbox)
                                          (Mailbox_ID archive) s5 of
                                     (Panic m, s6) \<Rightarrow> (Panicked m, s6)
                                   | (Err err, s6) \<Rightarrow> (Next failed, Fprint (FailedToMove err) s6)
                                   | (Ok u, s6) \<Rightarrow>
                                       (Next (cnt\<lparr>processedCount := processedCount cnt + 1\<rparr>),
                                        Fprint MovedToArchive s6))))))"

fun processLoop ::
  "'w EmailClient \<Rightarrow> 'w ScreenshotService \<Rightarrow> Mailbox \<Rightarrow> Mailbox option \<Rightarrow> int \<Rightarrow> int
   \<Rightarrow> string list \<Rightarrow> counters \<Rightarrow> 'w run \<Rightarrow> counters iteration \<times> 'w run" where
  "processLoop client generator sourceMailbox archiveMailbox emailCount i [] cnt s = (Next cnt, s)"
| "processLoop client generator sourceMailbox archiveMailbox emailCount i (emailID # rest) cnt s =
     (case processEmail client generator sourceMailbox archiveMailbox emailCount i emailID cnt s of
        (Next cnt', s') \<Rightarrow>
          processLoop client generator sourceMailbox archiveMailbox emailCount (i + 1) rest cnt' s'
      | (Panicked m, s') \<Rightarrow> (Panicked m, s'))"

text \<open>The dry-run listing, \<^verbatim>\<open>for i, id := range emailIDs\<close> (main.go, lines 99 to 101).\<close>

fun dryRunLoop :: "int \<Rightarrow> string list \<Rightarrow> 'w run \<Rightarrow> 'w run" where
  "dryRunLoop i [] s = s"
| "dryRunLoop i (emailID # rest) s =
     dryRunLoop (i + 1) rest (Fprint (DryRunEmailID (i + 1) emailID) s)"

definition processEmails ::
  "'w EmailClient \<Rightarrow> 'w ScreenshotService \<Rightarrow> int \<Rightarrow> bool \<Rightarrow> 'w run
   \<Rightarrow> ProcessResult outcome \<times> 'w run" where
  "processEmails client generator limit dryRun s0 =
     (case call_FindMailboxByName client sourceFolder s0 of
        (Panic m, s1) \<Rightarrow> (Panic m, s1)
      | (Err err, s1) \<Rightarrow>
          (Err (Wrapf (''failed to find source folder '' @ [CHR 0x27] @ sourceFolder
                       @ [CHR 0x27] @ '': '') err), s1)
      | (Ok sourceMailbox, s1) \<Rightarrow>
          (case call_FindMailboxByName client archiveFolder s1 of
             (Panic m, s2) \<Rightarrow> (Panic m, s2)
           | (Err err, s2) \<Rightarrow>
               (Err (Wrapf (''failed to find archive folder '' @ [CHR 0x27] @ archiveFolder
                            @ [CHR 0x27] @ '': '') err), s2)
           | (Ok archiveMailbox, s2) \<Rightarrow>
               (case sourceMailbox of
                  None \<Rightarrow> (Panic nilPointer, s2)
                | Some source \<Rightarrow>
                    (case call_GetEmailsInMailbox client (Mailbox_ID source) limit s2 of
                       (Panic m, s3) \<Rightarrow> (Panic m, s3)
                     | (Err err, s3) \<Rightarrow> (Err (Wrapf ''failed to retrieve emails: '' err), s3)
                     | (Ok emailIDs, s3) \<Rightarrow>
                         (let emailCount = int (length emailIDs)
                          in if emailCount = 0 then
                               (Ok \<lparr>TotalCount = 0, ProcessedCount = 0, FailedCount = 0\<rparr>,
                                Fprint (NoEmailsFound sourceFolder) s3)
                             else
                               (let s4 = Fprint (FoundEmails emailCount sourceFolder) s3
                                in if dryRun then
                                     (Ok \<lparr>TotalCount = emailCount, ProcessedCount = 0,
                                          FailedCount = 0\<rparr>,
                                      dryRunLoop 0 emailIDs
                                        (Fprint (WouldProcess emailCount) (Fprint DryRunMode s4)))
                                   else
                                     (case processLoop client generator source archiveMailbox
                                             emailCount 0 emailIDs
                                             \<lparr>processedCount = 0, failedCount = 0\<rparr> s4 of
                                        (Panicked m, s5) \<Rightarrow> (Panic m, s5)
                                      | (Next cnt, s5) \<Rightarrow>
                                          (Ok \<lparr>TotalCount = emailCount,
                                               ProcessedCount = processedCount cnt,
                                               FailedCount = failedCount cnt\<rparr>, s5))))))))"

section \<open>Library calls\<close>

text \<open>
  The Go standard library and the browser driver are not part of the repository. Every
  library call the source makes is a parameter of the model, collected in one record per
  source file; a call that can fail returns \<open>Inl msg\<close> for a non-nil error with message
  \<open>msg\<close>, which the model turns into \<open>LibError msg\<close>. Calls that reach outside the
  process (HTTP, the browser, the file system) take and return the world.
\<close>

type_synonym bytes = string

text \<open>\<^verbatim>\<open>strconv\<close>-style decimal rendering, for the \<^verbatim>\<open>%d\<close> verb.\<close>

fun showNat :: "nat \<Rightarrow> string" where
  "showNat n =
     (if n < 10 then [''0123456789'' ! n] else showNat (n div 10) @ [''0123456789'' ! (n mod 10)])"

definition Itoa :: "int \<Rightarrow> string" where
  "Itoa i = (if i < 0 then ''-'' @ showNat (nat (- i)) else showNat (nat i))"

text \<open>
  A value of type \<^verbatim>\<open>interface{}\<close> as the source builds it for a request or gets it from
  \<^verbatim>\<open>json.Unmarshal\<close>: nil, a bool, a number, a string, a slice, or a
  \<^verbatim>\<open>map[string]interface{}\<close> (an association list with distinct keys).
\<close>

datatype json =
    JNull
  | JBool bool
  | JNumber rat
  | JString string
  | JArray "json list"
  | JObject "(string \<times> json) list"

text \<open>
  A Go map literal: the entries are stored in order, and an entry whose key is already
  present replaces the earlier value. (For constant keys the compiler rejects
  duplicates; for computed keys the later entry wins.)
\<close>

definition mapLiteral :: "(string \<times> json) list \<Rightarrow> (string \<times> json) list" where
  "mapLiteral entries = foldl (\<lambda>m (k, v). AList.update k v m) [] entries"

subsection \<open>jmap.go\<close>

record JMAPClient =
  apiKey :: string
  accountID :: string
  apiURL :: string

record Request =
  Method :: string
  URL :: string
  Header :: "(string \<times> string) list"
  RequestBody :: bytes

text \<open>
  An HTTP response: its status code and what \<^verbatim>\<open>io.ReadAll(resp.Body)\<close> yields, the
  bytes read and the read error, if any.
\<close>

record Response =
  StatusCode :: int
  ReadAll :: "bytes \<times> string option"

text \<open>The two anonymous structs \<^verbatim>\<open>MoveEmail\<close> decodes into.\<close>

record errorResp =
  ErrorType :: string
  Description :: string

record setResponse =
  Updated :: "string \<rightharpoonup> json"
  NotUpdated :: "string \<rightharpoonup> json"

text \<open>
  \<^verbatim>\<open>json.Unmarshal\<close> works by reflection on its target; the model has one decoder per
  target type: \<^verbatim>\<open>struct{MethodResponses [][]interface{}}\<close>,
  \<^verbatim>\<open>struct{List []Mailbox}\<close>, and the two structs above. \<open>http_NewRequest\<close> is the
  check \<^verbatim>\<open>http.NewRequest\<close> makes on the method and the URL.
\<close>

record 'w jmap_library =
  json_Marshal :: "json \<Rightarrow> string + bytes"
  json_Unmarshal_methodResponses :: "bytes \<Rightarrow> string + json list list"
  json_Unmarshal_mailboxList :: "bytes \<Rightarrow> string + Mailbox list"
  json_Unmarshal_errorResp :: "bytes \<Rightarrow> string + errorResp"
  json_Unmarshal_setResponse :: "bytes \<Rightarrow> string + setResponse"
  http_NewRequest :: "string \<Rightarrow> string \<Rightarrow> string option"
  http_Do :: "Request \<Rightarrow> 'w \<Rightarrow> (string + Response) \<times> 'w"

definition indexOutOfRange :: string where
  "indexOutOfRange = ''index out of range''"

text \<open>\<^verbatim>\<open>makeRequest\<close> (jmap.go, lines 139 to 173).\<close>

definition requestBody :: "json list \<Rightarrow> json" where
  "requestBody methodCalls =
     JObject (mapLiteral
       [(''using'', JArray [JString ''urn:ietf:params:jmap:core'',
                            JString ''urn:ietf:params:jmap:mail'']),
        (''methodCalls'', JArray methodCalls)])"

definition postRequest :: "JMAPClient \<Rightarrow> bytes \<Rightarrow> Request" where
  "postRequest c jsonData =
     \<lparr>Method = ''POST'', URL = apiURL c,
      Header = [(''Authorization'', ''Bearer '' @ apiKey c),
                (''Content-Type'', ''application/json'')],
      RequestBody = jsonData\<rparr>"

definition makeRequest ::
  "'w jmap_library \<Rightarrow> JMAPClient \<Rightarrow> json list \<Rightarrow> 'w \<Rightarrow> bytes outcome \<times> 'w" where
  "makeRequest lib c methodCalls w =
     (case json_Marshal lib (requestBody methodCalls) of
        Inl err \<Rightarrow> (Err (Wrapf ''failed to marshal request: '' (LibError err)), w)
      | Inr jsonData \<Rightarrow>
          (case http_NewRequest lib ''POST'' (apiURL c) of
             Some err \<Rightarrow> (Err (Wrapf ''failed to create request: '' (LibError err)), w)
           | None \<Rightarrow>
               (case http_Do lib (postRequest c jsonData) w of
                  (Inl err, w') \<Rightarrow> (Err (Wrapf ''failed to make request: '' (LibError err)), w')
                | (Inr resp, w') \<Rightarrow>
                    if StatusCode resp \<noteq> 200 then
                      (Err (Errorf (''request failed with status '' @ Itoa (StatusCode resp)
                                    @ '': '' @ fst (ReadAll resp))), w')
                    else
                      (case ReadAll resp of
                         (body, Some err) \<Rightarrow> (Err (LibError err), w')
                       | (body, None) \<Rightarrow> (Ok body, w')))))"

text \<open>\<^verbatim>\<open>FindMailboxByName\<close> (jmap.go, lines 176 to 238).\<close>

definition FindMailboxByName_methodCalls :: "JMAPClient \<Rightarrow> string \<Rightarrow> json list" where
  "FindMailboxByName_methodCalls c name =
     [JArray [JString ''Mailbox/query'',
              JObject (mapLiteral
                [(''accountId'', JString (accountID c)),
                 (''filter'', JObject (mapLiteral [(''name'', JString name)]))]),
              JString ''0''],
      JArray [JString ''Mailbox/get'',
              JObject (mapLiteral
                [(''accountId'', JString (accountID c)),
                 (''#ids'', JObject (mapLiteral
                    [(''resultOf'', JString ''0''),
                     (''name'', JString ''Mailbox/query''),
                     (''path'', JString ''/ids'')]))]),
              JString ''1''] ]"

definition mailboxNotFound :: "string \<Rightarrow> error" where
  "mailboxNotFound name = Errorf (''mailbox '' @ [CHR 0x27] @ name @ [CHR 0x27] @ '' not found'')"

text \<open>
  The first part of the function, lines 177 to 231: the request and the decoding of its
  reply, up to \<^verbatim>\<open>getResponse.List\<close>, the mailbox list the server returned.
  \<^verbatim>\<open>response.MethodResponses[1][1]\<close> panics when the second method response has
  fewer than two elements.
\<close>

definition FindMailboxByName_list ::
  "'w jmap_library \<Rightarrow> JMAPClient \<Rightarrow> string \<Rightarrow> 'w \<Rightarrow> Mailbox list outcome \<times> 'w" where
  "FindMailboxByName_list lib c name w =
     (case makeRequest lib c (FindMailboxByName_methodCalls c name) w of
        (Panic m, w') \<Rightarrow> (Panic m, w')
      | (Err err, w') \<Rightarrow> (Err err, w')
      | (Ok responseData, w') \<Rightarrow>
          (case json_Unmarshal_methodResponses lib responseData of
             Inl err \<Rightarrow> (Err (Wrapf ''failed to decode response: '' (LibError err)), w')
           | Inr MethodResponses \<Rightarrow>
               if length MethodResponses < 2 then
                 (Err (Errorf ''unexpected response format''), w')
               else if \<not> 1 < length (MethodResponses ! 1) then (Panic indexOutOfRange, w')
               else
                 (case json_Marshal lib (MethodResponses ! 1 ! 1) of
                    Inl err \<Rightarrow> (Err (LibError err), w')
                  | Inr getResponseData \<Rightarrow>
                      (case json_Unmarshal_mailboxList lib getResponseData of
                         Inl err \<Rightarrow>
                           (Err (Wrapf ''failed to decode mailbox response: '' (LibError err)), w')
                       | Inr List \<Rightarrow> (Ok List, w')))))"

text \<open>
  The rest, lines 233 to 237:
  \<^verbatim>\<open>
  if len(getResponse.List) == 0 { return nil, fmt.Errorf("mailbox '%s' not found", name) }
  return &getResponse.List[0], nil
  \<close>
\<close>

definition JMAPClient_FindMailboxByName ::
  "'w jmap_library \<Rightarrow> JMAPClient \<Rightarrow> string \<Rightarrow> 'w \<Rightarrow> Mailbox option outcome \<times> 'w" where
  "JMAPClient_FindMailboxByName lib c name w =
     (case FindMailboxByName_list lib c name w of
        (Panic m, w') \<Rightarrow> (Panic m, w')
      | (Err err, w') \<Rightarrow> (Err err, w')
      | (Ok List, w') \<Rightarrow>
          if length List = 0 then (Err (mailboxNotFound name), w')
          else (Ok (Some (List ! 0)), w'))"

text \<open>\<^verbatim>\<open>MoveEmail\<close> (jmap.go, lines 353 to 426).\<close>

definition MoveEmail_update :: "string \<Rightarrow> string \<Rightarrow> (string \<times> json) list" where
  "MoveEmail_update sourceMailboxID targetMailboxID =
     mapLiteral [(''mailboxIds/'' @ sourceMailboxID, JNull),
                 (''mailboxIds/'' @ targetMailboxID, JBool True)]"

definition MoveEmail_methodCalls :: "JMAPClient \<Rightarrow> string \<Rightarrow> string \<Rightarrow> string \<Rightarrow> json list" where
  "MoveEmail_methodCalls c emailID sourceMailboxID targetMailboxID =
     [JArray [JString ''Email/set'',
              JObject (mapLiteral
                [(''accountId'', JString (accountID c)),
                 (''update'', JObject (mapLiteral
                    [(emailID, JObject (MoveEmail_update sourceMailboxID targetMailboxID))]))]),
              JString ''0''] ]"

definition readOnlyKey :: error where
  "readOnlyKey = Errorf (''API key has read-only permissions. Please create a new Fastmail ''
                         @ ''API token with read-write permissions for Mail'')"

text \<open>\<^verbatim>\<open>data, _ := json.Marshal(v)\<close> followed by \<^verbatim>\<open>string(data)\<close>: a failed marshal leaves nil.\<close>

definition marshalString :: "'w jmap_library \<Rightarrow> json \<Rightarrow> string" where
  "marshalString lib v = (case json_Marshal lib v of Inl err \<Rightarrow> '''' | Inr data \<Rightarrow> data)"

definition JMAPClient_MoveEmail ::
  "'w jmap_library \<Rightarrow> JMAPClient \<Rightarrow> string \<Rightarrow> string \<Rightarrow> string \<Rightarrow> 'w \<Rightarrow> unit outcome \<times> 'w" where
  "JMAPClient_MoveEmail lib c emailID sourceMailboxID targetMailboxID w =
     (case makeRequest lib c (MoveEmail_methodCalls c emailID sourceMailboxID targetMailboxID) w of
        (Panic m, w') \<Rightarrow> (Panic m, w')
      | (Err err, w') \<Rightarrow> (Err err, w')
      | (Ok responseData, w') \<Rightarrow>
          (case json_Unmarshal_methodResponses lib responseData of
             Inl err \<Rightarrow> (Err (Wrapf ''failed to decode response: '' (LibError err)), w')
           | Inr MethodResponses \<Rightarrow>
               if length MethodResponses = 0 then
                 (Err (Errorf ''unexpected response format''), w')
               else
                 (let first = MethodResponses ! 0
                  in if length first > 0 \<and>
                        (case first ! 0 of JString methodName \<Rightarrow> methodName = ''error'' | _ \<Rightarrow> False)
                     then
                       (if \<not> 1 < length first then (Panic indexOutOfRange, w')
                        else
                          (let errorData = marshalString lib (first ! 1)
                           in case json_Unmarshal_errorResp lib errorData of
                                Inr errorResp \<Rightarrow>
                                  if ErrorType errorResp = ''accountReadOnly'' then
                                    (Err readOnlyKey, w')
                                  else
                                    (Err (Errorf (''JMAP error ('' @ ErrorType errorResp @ ''): ''
                                                  @ Description errorResp)), w')
                              | Inl err \<Rightarrow> (Err (Errorf (''JMAP error: '' @ errorData)), w')))
                     else if \<not> 1 < length first then (Panic indexOutOfRange, w')
                     else
                       (case json_Marshal lib (first ! 1) of
                          Inl err \<Rightarrow> (Err (LibError err), w')
                        | Inr setResponseData \<Rightarrow>
                            (case json_Unmarshal_setResponse lib setResponseData of
                               Inl err \<Rightarrow>
                                 (Err (Wrapf ''failed to decode set response: '' (LibError err)), w')
                             | Inr setResponse \<Rightarrow>
                                 (case NotUpdated setResponse emailID of
                                    Some notUpdated \<Rightarrow>
                                      (Err (Errorf (''failed to move email: ''
                                                    @ marshalString lib notUpdated)), w')
                                  | None \<Rightarrow> (Ok (), w')))))))"

subsection \<open>screenshot.go\<close>

record ScreenshotGenerator =
  outputDir :: string
  width :: int
  height :: int

text \<open>The browser actions handed to \<^verbatim>\<open>chromedp.Run\<close>; \<open>Sleep\<close> is in milliseconds.\<close>

datatype action =
    EmulateViewport int int
  | Navigate string
  | WaitReady string
  | Sleep nat
  | FullScreenshot int

text \<open>
  The library calls of \<^verbatim>\<open>screenshot.go\<close>, with \<open>'t\<close> the type \<^verbatim>\<open>time.Time\<close>.
  \<open>chromedp_Run\<close> takes the timeout of its context in seconds and returns the buffer
  \<^verbatim>\<open>FullScreenshot\<close> fills; \<open>os_WriteFile\<close> takes the path, the data and the permission
  bits (octal 0644 is \<open>0x1A4\<close>).
\<close>

record ('w, 't) render_library =
  time_Parse :: "string \<Rightarrow> string \<Rightarrow> string + 't"
  time_Format :: "'t \<Rightarrow> string \<Rightarrow> string"
  filepath_Join :: "string list \<Rightarrow> string"
  url_PathEscape :: "string \<Rightarrow> string"
  chromedp_Run :: "nat \<Rightarrow> action list \<Rightarrow> 'w \<Rightarrow> (string + bytes) \<times> 'w"
  os_WriteFile :: "string \<Rightarrow> bytes \<Rightarrow> nat \<Rightarrow> 'w \<Rightarrow> string option \<times> 'w"

definition RFC3339 :: string where
  "RFC3339 = ''2006-01-02T15:04:05Z07:00''"

definition joinLines :: "string list \<Rightarrow> string" where
  "joinLines ls = concat (map (\<lambda>l. l @ [CHR 0x0A]) ls)"

text \<open>The page \<^verbatim>\<open>fmt.Sprintf\<close> builds around the content (\<^verbatim>\<open>%%\<close> prints one percent sign).\<close>

definition fullHTML :: "string \<Rightarrow> string" where
  \<open>fullHTML htmlContent =
     joinLines
       [''<!DOCTYPE html>'',
        ''<html>'',
        ''<head>'',
        ''    <meta charset="UTF-8">'',
        ''    <style>'',
        ''        body {'',
        ''            margin: 20px;'',
        ''            font-family: -apple-system, BlinkMacSystemFont, "Segoe UI", Roboto, "Helvetica Neue", Arial, sans-serif;'',
        ''            font-size: 14px;'',
        ''            line-height: 1.5;'',
        ''        }'',
        ''        img {'',
        ''            max-width: 100%;'',
        ''            height: auto;'',
        ''        }'',
        ''    </style>'',
        ''</head>'',
        ''<body>'']
     @ htmlContent @ joinLines ['''', ''</body>''] @ ''</html>''\<close>

text \<open>\<^verbatim>\<open>GenerateScreenshot\<close> (screenshot.go, lines 36 to 101).\<close>

definition ScreenshotGenerator_GenerateScreenshot ::
  "('w, 't) render_library \<Rightarrow> ScreenshotGenerator \<Rightarrow> string \<Rightarrow> string \<Rightarrow> 'w
   \<Rightarrow> string outcome \<times> 'w" where
  "ScreenshotGenerator_GenerateScreenshot lib s timestamp htmlContent w =
     (case time_Parse lib RFC3339 timestamp of
        Inl err \<Rightarrow> (Err (Wrapf ''failed to parse timestamp: '' (LibError err)), w)
      | Inr t \<Rightarrow>
          (let formattedTime = time_Format lib t ''2006-01-02-15-04-05'';
               outputPath = filepath_Join lib [outputDir s, formattedTime @ ''.png''];
               dataURL = ''data:text/html;charset=utf-8,'' @ url_PathEscape lib (fullHTML htmlContent)
           in case chromedp_Run lib 30
                     [EmulateViewport (width s) (height s), Navigate dataURL, WaitReady ''body'',
                      Sleep 500, FullScreenshot 90] w of
                (Inl err, w1) \<Rightarrow> (Err (Wrapf ''failed to generate screenshot: '' (LibError err)), w1)
              | (Inr buf, w1) \<Rightarrow>
                  (case os_WriteFile lib outputPath buf 0x1A4 w1 of
                     (Some err, w2) \<Rightarrow>
                       (Err (Wrapf ''failed to write screenshot: '' (LibError err)), w2)
                   | (None, w2) \<Rightarrow> (Ok outputPath, w2))))"

text \<open>
  In \<^verbatim>\<open>main\<close> the generator built by \<^verbatim>\<open>NewScreenshotGenerator\<close> is the
  \<^verbatim>\<open>ScreenshotService\<close> handed to \<^verbatim>\<open>processEmails\<close>.
\<close>

definition ScreenshotGenerator_service ::
  "('w, 't) render_library \<Rightarrow> ScreenshotGenerator \<Rightarrow> 'w ScreenshotService" where
  "ScreenshotGenerator_service lib s =
     \<lparr>GenerateScreenshot = ScreenshotGenerator_GenerateScreenshot lib s\<rparr>"

section \<open>RFC 3339 timestamps\<close>

text \<open>
  The grammar of \<^verbatim>\<open>date-time\<close> in RFC 3339, section 5.6, which says which strings are
  valid timestamps:
  \<^verbatim>\<open>
  date-time = full-date "T" full-time
  full-date = 4DIGIT "-" 2DIGIT "-" 2DIGIT
  full-time = 2DIGIT ":" 2DIGIT ":" 2DIGIT ["." 1*DIGIT] ("Z" / ("+" / "-") 2DIGIT ":" 2DIGIT)
  \<close>
  with the month in 01 to 12, the day in 01 to the length of the month, the hour in 00 to
  23, the minute in 00 to 59 and the second in 00 to 60; \<^verbatim>\<open>T\<close> and \<^verbatim>\<open>Z\<close> may be in
  lower case. This is the standard's notion, not the program's: the program asks
  \<^verbatim>\<open>time.Parse\<close>, which is a library call here.
\<close>

definition isDigit :: "char \<Rightarrow> bool" where
  "isDigit c = (c \<in> set ''0123456789'')"

definition digitValue :: "char \<Rightarrow> nat" where
  "digitValue c = length (takeWhile (\<lambda>d. d \<noteq> c) ''0123456789'')"

definition decimal :: "string \<Rightarrow> nat option" where
  "decimal ds =
     (if ds \<noteq> [] \<and> list_all isDigit ds
      then Some (foldl (\<lambda>n c. 10 * n + digitValue c) 0 ds) else None)"

definition leapYear :: "nat \<Rightarrow> bool" where
  "leapYear y = (y mod 4 = 0 \<and> (y mod 100 \<noteq> 0 \<or> y mod 400 = 0))"

definition daysIn :: "nat \<Rightarrow> nat \<Rightarrow> nat" where
  "daysIn year month =
     (if month = 2 then (if leapYear year then 29 else 28)
      else if month = 4 \<or> month = 6 \<or> month = 9 \<or> month = 11 then 30 else 31)"

definition validOffset :: "string \<Rightarrow> bool" where
  "validOffset z =
     (z = ''Z'' \<or> z = ''z'' \<or>
      (length z = 6 \<and> (z ! 0 = CHR ''+'' \<or> z ! 0 = CHR ''-'') \<and> z ! 3 = CHR '':'' \<and>
       (case (decimal (take 2 (drop 1 z)), decimal (drop 4 z)) of
          (Some h, Some m) \<Rightarrow> h \<le> 23 \<and> m \<le> 59
        | _ \<Rightarrow> False)))"

definition validRFC3339 :: "string \<Rightarrow> bool" where
  "validRFC3339 s =
     (20 \<le> length s \<and>
      s ! 4 = CHR ''-'' \<and> s ! 7 = CHR ''-'' \<and> (s ! 10 = CHR ''T'' \<or> s ! 10 = CHR ''t'') \<and>
      s ! 13 = CHR '':'' \<and> s ! 16 = CHR '':'' \<and>
      (case (decimal (take 4 s), decimal (take 2 (drop 5 s)), decimal (take 2 (drop 8 s)),
             decimal (take 2 (drop 11 s)), decimal (take 2 (drop 14 s)),
             decimal (take 2 (drop 17 s))) of
         (Some year, Some month, Some day, Some hour, Some minute, Some second) \<Rightarrow>
           1 \<le> month \<and> month \<le> 12 \<and> 1 \<le> day \<and> day \<le> daysIn year month \<and>
           hour \<le> 23 \<and> minute \<le> 59 \<and> second \<le> 60
       | _ \<Rightarrow> False) \<and>
      (let rest = drop 19 s; fraction = takeWhile isDigit (drop 1 rest)
       in if take 1 rest = ''.''
          then fraction \<noteq> [] \<and> validOffset (drop (1 + length fraction) rest)
          else validOffset rest))"

section \<open>Test doubles\<close>

text \<open>
  \<^verbatim>\<open>MockEmailClient\<close> of \<^verbatim>\<open>main_test.go\<close>: maps that stand for the server, and two
  injected errors. Its methods never touch the world.
\<close>

record MockEmailClient =
  mailboxes :: "string \<rightharpoonup> Mailbox option"
  emails :: "string \<rightharpoonup> string list"
  emailDetails :: "string \<rightharpoonup> Email"
  moveEmailError :: "error option"
  getEmailsError :: "error option"

definition MockEmailClient_FindMailboxByName ::
  "MockEmailClient \<Rightarrow> string \<Rightarrow> Mailbox option outcome" where
  "MockEmailClient_FindMailboxByName m name =
     (case mailboxes m name of
        Some mailbox \<Rightarrow> Ok mailbox
      | None \<Rightarrow> Err (Errorf ''mailbox not found''))"

definition MockEmailClient_GetEmailsInMailbox ::
  "MockEmailClient \<Rightarrow> string \<Rightarrow> int \<Rightarrow> string list outcome" where
  "MockEmailClient_GetEmailsInMailbox m mailboxID limit =
     (case getEmailsError m of
        Some err \<Rightarrow> Err err
      | None \<Rightarrow>
          (case emails m mailboxID of
             Some ids \<Rightarrow>
               if limit > 0 \<and> int (length ids) > limit then Ok (take (nat limit) ids) else Ok ids
           | None \<Rightarrow> Ok []))"

primrec MockEmailClient_GetEmails :: "MockEmailClient \<Rightarrow> string list \<Rightarrow> Email list" where
  "MockEmailClient_GetEmails m [] = []"
| "MockEmailClient_GetEmails m (emailID # rest) =
     (case emailDetails m emailID of
        Some email \<Rightarrow> email # MockEmailClient_GetEmails m rest
      | None \<Rightarrow> MockEmailClient_GetEmails m rest)"

definition MockEmailClient_MoveEmail :: "MockEmailClient \<Rightarrow> unit outcome" where
  "MockEmailClient_MoveEmail m = (case moveEmailError m of Some err \<Rightarrow> Err err | None \<Rightarrow> Ok ())"

definition MockEmailClient_client :: "MockEmailClient \<Rightarrow> 'w EmailClient" where
  "MockEmailClient_client m =
     \<lparr>FindMailboxByName = (\<lambda>name w. (MockEmailClient_FindMailboxByName m name, w)),
      GetEmailsInMailbox = (\<lambda>mailboxID limit w. (MockEmailClient_GetEmailsInMailbox m mailboxID limit, w)),
      GetEmails = (\<lambda>emailIDs w. (Ok (MockEmailClient_GetEmails m emailIDs), w)),
      MoveEmail = (\<lambda>emailID sourceMailboxID targetMailboxID w. (MockEmailClient_MoveEmail m, w))\<rparr>"

text \<open>
  A double for the library of \<^verbatim>\<open>screenshot.go\<close>, which agrees with the real one on
  the inputs used below: a clock that knows one timestamp (\<^verbatim>\<open>time.Time\<close> is Unix
  seconds), a path join of a directory and a file name, a browser that renders every page
  to the same bytes, and a file system that is the list of the files written.
\<close>

definition sampleRenderLibrary :: "((string \<times> bytes) list, int) render_library" where
  "sampleRenderLibrary =
     \<lparr>time_Parse = (\<lambda>layout v.
        if layout = RFC3339 \<and> v = ''2025-10-24T14:30:00Z'' then Inr 1761316200
        else Inl ''cannot parse''),
      time_Format = (\<lambda>t layout.
        if t = 1761316200 \<and> layout = ''2006-01-02-15-04-05'' then ''2025-10-24-14-30-00''
        else ''''),
      filepath_Join = (\<lambda>elems. case elems of [dir, file] \<Rightarrow> dir @ ''/'' @ file | _ \<Rightarrow> concat elems),
      url_PathEscape = (\<lambda>s. s),
      chromedp_Run = (\<lambda>timeout actions w. (Inr ''PNG'', w)),
      os_WriteFile = (\<lambda>path data perm w. (None, w @ [(path, data)]))\<rparr>"

definition sampleGenerator :: ScreenshotGenerator where
  "sampleGenerator = \<lparr>outputDir = ''screenshots'', width = 1280, height = 800\<rparr>"

text \<open>
  A double for the library of \<^verbatim>\<open>jmap.go\<close>: the server answers every request with
  status 200, and the reply decodes to the scripted values; the world is the list of the
  requests sent.
\<close>

definition scriptedLibrary ::
  "json list list \<Rightarrow> Mailbox list \<Rightarrow> errorResp \<Rightarrow> setResponse \<Rightarrow> Request list jmap_library" where
  "scriptedLibrary methodResponses mailboxList errResp setResp =
     \<lparr>json_Marshal = (\<lambda>v. Inr ''{}''),
      json_Unmarshal_methodResponses = (\<lambda>data. Inr methodResponses),
      json_Unmarshal_mailboxList = (\<lambda>data. Inr mailboxList),
      json_Unmarshal_errorResp = (\<lambda>data. Inr errResp),
      json_Unmarshal_setResponse = (\<lambda>data. Inr setResp),
      http_NewRequest = (\<lambda>method url. None),
      http_Do = (\<lambda>req w. (Inr \<lparr>StatusCode = 200, ReadAll = (''{}'', None)\<rparr>, w @ [req]))\<rparr>"



text \<open>
  Two scripted servers for \<^verbatim>\<open>MoveEmail\<close>. The first answers with a method-level error
  of the given type, \<^verbatim>\<open>{"methodResponses":[ ["error",{"type":...},"0"] ]}\<close>; the second
  with an \<^verbatim>\<open>Email/set\<close> response whose \<^verbatim>\<open>notUpdated\<close> is the given object.
\<close>

definition errorServer :: "string \<Rightarrow> Request list jmap_library" where
  "errorServer errorType =
     scriptedLibrary
       [ [JString ''error'', JObject [(''type'', JString errorType)], JString ''0''] ] []
       \<lparr>ErrorType = errorType, Description = ''''\<rparr>
       \<lparr>Updated = Map.empty, NotUpdated = Map.empty\<rparr>"

definition setServer :: "(string \<times> json) list \<Rightarrow> Request list jmap_library" where
  "setServer notUpdated =
     scriptedLibrary
       [ [JString ''Email/set'', JObject [(''notUpdated'', JObject notUpdated)], JString ''0''] ] []
       \<lparr>ErrorType = '''', Description = ''''\<rparr>
       \<lparr>Updated = Map.empty, NotUpdated = map_of notUpdated\<rparr>"

text \<open>
  The sample library with the clock of Go: \<^verbatim>\<open>time.Parse\<close> first reads its argument as
  strict RFC 3339 and, when that fails, falls back to its general parser, which takes an
  hour of one digit. So \<^verbatim>\<open>time.Parse(time.RFC3339, "2025-10-24T1:30:00Z")\<close> is
  01:30:00 UTC on that day, not an error.
\<close>

definition lenientRenderLibrary :: "((string \<times> bytes) list, int) render_library" where
  "lenientRenderLibrary =
     sampleRenderLibrary
       \<lparr>time_Parse := (\<lambda>layout v.
          if layout = RFC3339 \<and> v = ''2025-10-24T1:30:00Z'' then Inr 1761269400
          else time_Parse sampleRenderLibrary layout v),
        time_Format := (\<lambda>t layout.
          if t = 1761269400 \<and> layout = ''2006-01-02-15-04-05'' then ''2025-10-24-01-30-00''
          else time_Format sampleRenderLibrary t layout)\<rparr>"


definition sampleJMAPClient :: JMAPClient where
  "sampleJMAPClient = \<lparr>apiKey = ''key'', accountID = ''u1'', apiURL = ''https://api.example/jmap''\<rparr>"

text \<open>
  Test data after \<^verbatim>\<open>TestProcessEmails_Success\<close>: two mailboxes and two messages in the
  source folder. The first message's identifier is a timestamp the sample clock knows;
  the second has no HTML body part.
\<close>

definition htmlEmail :: "string \<Rightarrow> string \<Rightarrow> Email" where
  "htmlEmail emailID received =
     \<lparr>Email_ID = emailID, Subject = ''Test Email'', ReceivedAt = received, From = [],
      HTMLBody = [\<lparr>PartID = ''part1'', PartType = ''text/html''\<rparr>],
      BodyValues = [''part1'' \<mapsto> \<lparr>Value = ''<p>Test</p>'', IsHTML = False\<rparr>],
      MailboxIds = Map.empty\<rparr>"

definition textEmail :: "string \<Rightarrow> Email" where
  "textEmail emailID =
     \<lparr>Email_ID = emailID, Subject = ''Text Only Email'', ReceivedAt = ''2025-10-24T14:30:00Z'',
      From = [], HTMLBody = [], BodyValues = Map.empty, MailboxIds = Map.empty\<rparr>"

definition sampleMock :: MockEmailClient where
  "sampleMock =
     \<lparr>mailboxes = [sourceFolder \<mapsto> Some \<lparr>Mailbox_ID = ''src-123'', Mailbox_Name = sourceFolder, Role = ''''\<rparr>,
                   archiveFolder \<mapsto> Some \<lparr>Mailbox_ID = ''arch-456'', Mailbox_Name = archiveFolder, Role = ''''\<rparr>],
      emails = [''src-123'' \<mapsto> [''2025-10-24T14:30:00Z'', ''email2''] ],
      emailDetails = [''2025-10-24T14:30:00Z'' \<mapsto> htmlEmail ''2025-10-24T14:30:00Z'' ''2024-01-01T00:00:00Z'',
                      ''email2'' \<mapsto> textEmail ''email2''],
      moveEmailError = None,
      getEmailsError = None\<rparr>"

definition fresh :: "'w \<Rightarrow> 'w run" where
  "fresh w = \<lparr>world = w, calls = [], outputLog = []\<rparr>"

section \<open>Evaluating the doubles\<close>

lemmas run_defs =
  processEmails_def processEmail_def call_FindMailboxByName_def call_GetEmailsInMailbox_def
  call_GetEmails_def call_GenerateScreenshot_def call_MoveEmail_def Fprint_def fresh_def
  MockEmailClient_client_def MockEmailClient_FindMailboxByName_def
  MockEmailClient_GetEmailsInMailbox_def MockEmailClient_MoveEmail_def
  ScreenshotGenerator_service_def ScreenshotGenerator_GenerateScreenshot_def
  sampleMock_def sampleRenderLibrary_def sampleGenerator_def htmlEmail_def textEmail_def
  extractHTMLContent_def sourceFolder_def archiveFolder_def RFC3339_def Let_def

text \<open>
  The scenario of the two messages, one with an HTML body and one without: total 2,
  processed 1, failed 1; one file written, one message moved.
\<close>

lemma sample_run:
  "processEmails (MockEmailClient_client sampleMock)
     (ScreenshotGenerator_service sampleRenderLibrary sampleGenerator) 0 False (fresh []) =
   (Ok \<lparr>TotalCount = 2, ProcessedCount = 1, FailedCount = 1\<rparr>,
    \<lparr>world = [(''screenshots/2025-10-24-14-30-00.png'', ''PNG'')],
     calls = [CallFindMailboxByName ''_aar'', CallFindMailboxByName ''_aar_processed'',
              CallGetEmailsInMailbox ''src-123'' 0,
              CallGetEmails [''2025-10-24T14:30:00Z''],
              CallGenerateScreenshot ''2025-10-24T14:30:00Z'' ''<p>Test</p>'',
              CallMoveEmail ''2025-10-24T14:30:00Z'' ''src-123'' ''arch-456'',
              CallGetEmails [''email2''] ],
     outputLog = [FoundEmails 2 ''_aar'', ProcessingEmail 1 2 ''2025-10-24T14:30:00Z'',
                  PrintSubject ''Test Email'',
                  ScreenshotGenerated ''screenshots/2025-10-24-14-30-00.png'', MovedToArchive,
                  ProcessingEmail 2 2 ''email2'', PrintSubject ''Text Only Email'',
                  NoHTMLContent]\<rparr>)"
  by (simp add: run_defs)

section \<open>extractHTMLContent reads the first HTML part only\<close>

text \<open>
  C10. \<^verbatim>\<open>extractHTMLContent\<close> consults only the first HTML body part: the result is
  the empty string when the email has no HTML body part, the empty string when the first
  part's \<^verbatim>\<open>PartID\<close> is not a key of \<^verbatim>\<open>BodyValues\<close>, and the value stored under
  that key otherwise. The later parts do not occur on the right-hand side: they are never
  consulted, whatever content they have.
\<close>

theorem extractHTMLContent_first_part_only:
  "extractHTMLContent email =
     (case HTMLBody email of
        [] \<Rightarrow> ''''
      | part # later \<Rightarrow>
          (case BodyValues email (PartID part) of
             None \<Rightarrow> ''''
           | Some bodyValue \<Rightarrow> Value bodyValue))"
  by (cases "HTMLBody email") (simp_all add: extractHTMLContent_def split: option.split)

text \<open>An email whose second HTML part has content and whose first has none yields nothing.\<close>

lemma extractHTMLContent_later_part_ignored:
  "extractHTMLContent
     \<lparr>Email_ID = ''M1'', Subject = ''s'', ReceivedAt = ''2025-10-24T14:30:00Z'', From = [],
      HTMLBody = [\<lparr>PartID = ''1'', PartType = ''text/html''\<rparr>,
                  \<lparr>PartID = ''2'', PartType = ''text/html''\<rparr>],
      BodyValues = [''2'' \<mapsto> \<lparr>Value = ''<p>later</p>'', IsHTML = False\<rparr>],
      MailboxIds = Map.empty\<rparr> = ''''"
  by (simp add: extractHTMLContent_def)

section \<open>The counters of a run\<close>

lemma processEmail_counts:
  assumes "processEmail client generator source archive n i emailID cnt s = (Next cnt', s')"
  shows "processedCount cnt' + failedCount cnt' = processedCount cnt + failedCount cnt + 1"
  using assms
  by (auto simp: processEmail_def Let_def
           split: prod.splits outcome.splits if_splits option.splits)

lemma processLoop_counts:
  "processLoop client generator source archive n i emailIDs cnt s = (Next cnt', s') \<Longrightarrow>
   processedCount cnt' + failedCount cnt'
     = processedCount cnt + failedCount cnt + int (length emailIDs)"
proof (induction emailIDs arbitrary: i cnt s)
  case Nil
  then show ?case by simp
next
  case (Cons emailID rest)
  from Cons.prems obtain cnt1 s1 where
    step: "processEmail client generator source archive n i emailID cnt s = (Next cnt1, s1)" and
    rest: "processLoop client generator source archive n (i + 1) rest cnt1 s1 = (Next cnt', s')"
    by (auto split: prod.splits iteration.splits)
  from Cons.IH [OF rest] processEmail_counts [OF step] show ?case by simp
qed

text \<open>
  The loop over a list is the loop over a first part of it followed, unless that panicked,
  by the loop over the rest from the state and the counters reached: every iteration of a
  run is an application of the loop to the identifiers that remain.
\<close>

lemma processLoop_append:
  "processLoop client generator source archive n i (first @ rest) cnt s =
     (case processLoop client generator source archive n i first cnt s of
        (Next cnt', s') \<Rightarrow>
          processLoop client generator source archive n (i + int (length first)) rest cnt' s'
      | (Panicked m, s') \<Rightarrow> (Panicked m, s'))"
  by (induction first arbitrary: i cnt s)
     (auto split: prod.splits iteration.splits simp: algebra_simps)

text \<open>
  C1. Whenever a run that is not a dry run returns a result (not a fatal error, not a
  panic), processed plus failed equals the total, and the total is the number of
  identifiers the listing call returned: the run resolved both folders, listed the source
  folder, and \<^verbatim>\<open>TotalCount\<close> is the length of that list.
\<close>

theorem processEmails_counts_add_up:
  assumes "processEmails client generator limit False s0 = (Ok result, s')"
  shows "ProcessedCount result + FailedCount result = TotalCount result \<and>
         (\<exists>source w1 archive w2 emailIDs w3.
            FindMailboxByName client sourceFolder (world s0) = (Ok (Some source), w1) \<and>
            FindMailboxByName client archiveFolder w1 = (Ok archive, w2) \<and>
            GetEmailsInMailbox client (Mailbox_ID source) limit w2 = (Ok emailIDs, w3) \<and>
            TotalCount result = int (length emailIDs))"
  using assms
  apply (simp add: processEmails_def call_FindMailboxByName_def call_GetEmailsInMailbox_def
      Let_def split: prod.splits outcome.splits option.splits if_splits iteration.splits)
  apply (auto dest: processLoop_counts)
  done

theorem processEmails_counts_add_up_witness:
  "processEmails (MockEmailClient_client sampleMock)
     (ScreenshotGenerator_service sampleRenderLibrary sampleGenerator) 0 False (fresh [])
   = (Ok \<lparr>TotalCount = 2, ProcessedCount = 1, FailedCount = 1\<rparr>,
      \<lparr>world = [(''screenshots/2025-10-24-14-30-00.png'', ''PNG'')],
       calls = [CallFindMailboxByName ''_aar'', CallFindMailboxByName ''_aar_processed'',
                CallGetEmailsInMailbox ''src-123'' 0,
                CallGetEmails [''2025-10-24T14:30:00Z''],
                CallGenerateScreenshot ''2025-10-24T14:30:00Z'' ''<p>Test</p>'',
                CallMoveEmail ''2025-10-24T14:30:00Z'' ''src-123'' ''arch-456'',
                CallGetEmails [''email2''] ],
       outputLog = [FoundEmails 2 ''_aar'', ProcessingEmail 1 2 ''2025-10-24T14:30:00Z'',
                    PrintSubject ''Test Email'',
                    ScreenshotGenerated ''screenshots/2025-10-24-14-30-00.png'', MovedToArchive,
                    ProcessingEmail 2 2 ''email2'', PrintSubject ''Text Only Email'',
                    NoHTMLContent]\<rparr>)
   \<and> ProcessedCount \<lparr>TotalCount = 2, ProcessedCount = 1, FailedCount = 1\<rparr>
       + FailedCount \<lparr>TotalCount = 2, ProcessedCount = 1, FailedCount = 1\<rparr>
     = TotalCount \<lparr>TotalCount = 2, ProcessedCount = 1, FailedCount = 1\<rparr>
   \<and> TotalCount \<lparr>TotalCount = 2, ProcessedCount = 1, FailedCount = 1\<rparr>
     = int (length [''2025-10-24T14:30:00Z'', ''email2''])
   \<and> GetEmailsInMailbox (MockEmailClient_client sampleMock) ''src-123'' 0 []
       = (Ok [''2025-10-24T14:30:00Z'', ''email2''], ([]::(string \<times> bytes) list))"
  using processEmails_counts_add_up [OF sample_run] sample_run
  by (simp add: run_defs)

section \<open>Messages without HTML content\<close>

text \<open>
  C3. When the loop reaches a message whose fetched record has no HTML body part, or
  whose extracted HTML content is the empty string, the iteration makes one interface
  call, the fetch: \<^verbatim>\<open>GenerateScreenshot\<close> is not called for the message (nor is
  \<^verbatim>\<open>MoveEmail\<close>). The loop goes on to the remaining messages with the failed counter
  incremented and the processed counter unchanged.
\<close>

theorem no_html_content_fails_without_render:
  assumes fetched: "GetEmails client [emailID] (world s) = (Ok (email # others), w)"
      and no_html: "HTMLBody email = [] \<or> extractHTMLContent email = ''''"
  shows "processLoop client generator source archive n i (emailID # rest) cnt s =
         processLoop client generator source archive n (i + 1) rest
           (cnt\<lparr>failedCount := failedCount cnt + 1\<rparr>)
           (s\<lparr>world := w,
              calls := calls s @ [CallGetEmails [emailID] ],
              outputLog := outputLog s @ [ProcessingEmail (i + 1) n emailID,
                                          PrintSubject (Subject email), NoHTMLContent]\<rparr>)"
proof -
  from no_html have empty: "extractHTMLContent email = ''''"
    by (auto simp: extractHTMLContent_def)
  have "processEmail client generator source archive n i emailID cnt s =
          (Next (cnt\<lparr>failedCount := failedCount cnt + 1\<rparr>),
           s\<lparr>world := w,
             calls := calls s @ [CallGetEmails [emailID] ],
             outputLog := outputLog s @ [ProcessingEmail (i + 1) n emailID,
                                         PrintSubject (Subject email), NoHTMLContent]\<rparr>)"
    using fetched empty by (simp add: processEmail_def call_GetEmails_def Fprint_def Let_def)
  then show ?thesis by simp
qed

theorem no_html_content_fails_without_render_witness:
  "GetEmails (MockEmailClient_client sampleMock) [''email2''] ([]::(string \<times> bytes) list)
     = (Ok [textEmail ''email2''], [])
   \<and> HTMLBody (textEmail ''email2'') = []
   \<and> processLoop (MockEmailClient_client sampleMock)
        (ScreenshotGenerator_service sampleRenderLibrary sampleGenerator)
        \<lparr>Mailbox_ID = ''src-123'', Mailbox_Name = ''_aar'', Role = ''''\<rparr> None 1 0 [''email2'']
        \<lparr>processedCount = 0, failedCount = 0\<rparr> (fresh [])
     = (Next \<lparr>processedCount = 0, failedCount = 1\<rparr>,
        \<lparr>world = [], calls = [CallGetEmails [''email2''] ],
         outputLog = [ProcessingEmail 1 1 ''email2'', PrintSubject ''Text Only Email'',
                      NoHTMLContent]\<rparr>)"
  using no_html_content_fails_without_render
    [of "MockEmailClient_client sampleMock" "''email2''" "fresh ([]::(string \<times> bytes) list)"
        "textEmail ''email2''" "[]" "[]"
        "ScreenshotGenerator_service sampleRenderLibrary sampleGenerator"
        "\<lparr>Mailbox_ID = ''src-123'', Mailbox_Name = ''_aar'', Role = ''''\<rparr>" None 1 0 "[]"
        "\<lparr>processedCount = 0, failedCount = 0\<rparr>"]
  by (simp add: run_defs)

section \<open>Render succeeded, move failed\<close>

text \<open>
  C4. When the render of a message succeeds and the move that follows returns an error,
  the loop goes on with the failed counter incremented and the processed counter
  unchanged. The iteration makes three interface calls, the fetch, the render and the
  move, and nothing after the move: the world the iteration leaves is the world the
  failed move left, which the move got from the render. Nothing deletes the file or
  undoes the render (the two interfaces have no operation that could).
\<close>

theorem move_failure_counts_failed:
  assumes fetched: "GetEmails client [emailID] (world s) = (Ok (email # others), w1)"
      and html: "extractHTMLContent email \<noteq> ''''"
      and rendered: "GenerateScreenshot generator emailID (extractHTMLContent email) w1
                       = (Ok screenshotPath, w2)"
      and move_failed: "MoveEmail client emailID (Mailbox_ID source) (Mailbox_ID archive) w2
                          = (Err err, w3)"
  shows "processLoop client generator source (Some archive) n i (emailID # rest) cnt s =
         processLoop client generator source (Some archive) n (i + 1) rest
           (cnt\<lparr>failedCount := failedCount cnt + 1\<rparr>)
           (s\<lparr>world := w3,
              calls := calls s @
                [CallGetEmails [emailID],
                 CallGenerateScreenshot emailID (extractHTMLContent email),
                 CallMoveEmail emailID (Mailbox_ID source) (Mailbox_ID archive)],
              outputLog := outputLog s @
                [ProcessingEmail (i + 1) n emailID, PrintSubject (Subject email),
                 ScreenshotGenerated screenshotPath, FailedToMove err]\<rparr>)"
proof -
  have "processEmail client generator source (Some archive) n i emailID cnt s =
          (Next (cnt\<lparr>failedCount := failedCount cnt + 1\<rparr>),
           s\<lparr>world := w3,
              calls := calls s @
                [CallGetEmails [emailID],
                 CallGenerateScreenshot emailID (extractHTMLContent email),
                 CallMoveEmail emailID (Mailbox_ID source) (Mailbox_ID archive)],
              outputLog := outputLog s @
                [ProcessingEmail (i + 1) n emailID, PrintSubject (Subject email),
                 ScreenshotGenerated screenshotPath, FailedToMove err]\<rparr>)"
    using fetched html rendered move_failed
    by (simp add: processEmail_def call_GetEmails_def call_GenerateScreenshot_def
        call_MoveEmail_def Fprint_def Let_def)
  then show ?thesis by simp
qed

text \<open>
  With the sample file system, where the world is the list of the files written: the
  message is counted as failed and its file is there.
\<close>

theorem move_failure_counts_failed_witness:
  "GetEmails (MockEmailClient_client (sampleMock\<lparr>moveEmailError := Some (Errorf ''move failed'')\<rparr>))
      [''2025-10-24T14:30:00Z''] ([]::(string \<times> bytes) list)
     = (Ok [htmlEmail ''2025-10-24T14:30:00Z'' ''2024-01-01T00:00:00Z''], [])
   \<and> extractHTMLContent (htmlEmail ''2025-10-24T14:30:00Z'' ''2024-01-01T00:00:00Z'') = ''<p>Test</p>''
   \<and> GenerateScreenshot (ScreenshotGenerator_service sampleRenderLibrary sampleGenerator)
        ''2025-10-24T14:30:00Z'' ''<p>Test</p>'' []
     = (Ok ''screenshots/2025-10-24-14-30-00.png'',
        [(''screenshots/2025-10-24-14-30-00.png'', ''PNG'')])
   \<and> MoveEmail (MockEmailClient_client (sampleMock\<lparr>moveEmailError := Some (Errorf ''move failed'')\<rparr>))
        ''2025-10-24T14:30:00Z'' ''src-123'' ''arch-456''
        [(''screenshots/2025-10-24-14-30-00.png'', ''PNG'')]
     = (Err (Errorf ''move failed''), [(''screenshots/2025-10-24-14-30-00.png'', ''PNG'')])
   \<and> processLoop (MockEmailClient_client (sampleMock\<lparr>moveEmailError := Some (Errorf ''move failed'')\<rparr>))
        (ScreenshotGenerator_service sampleRenderLibrary sampleGenerator)
        \<lparr>Mailbox_ID = ''src-123'', Mailbox_Name = ''_aar'', Role = ''''\<rparr>
        (Some \<lparr>Mailbox_ID = ''arch-456'', Mailbox_Name = ''_aar_processed'', Role = ''''\<rparr>)
        1 0 [''2025-10-24T14:30:00Z''] \<lparr>processedCount = 0, failedCount = 0\<rparr> (fresh [])
     = (Next \<lparr>processedCount = 0, failedCount = 1\<rparr>,
        \<lparr>world = [(''screenshots/2025-10-24-14-30-00.png'', ''PNG'')],
         calls = [CallGetEmails [''2025-10-24T14:30:00Z''],
                  CallGenerateScreenshot ''2025-10-24T14:30:00Z'' ''<p>Test</p>'',
                  CallMoveEmail ''2025-10-24T14:30:00Z'' ''src-123'' ''arch-456''],
         outputLog = [ProcessingEmail 1 1 ''2025-10-24T14:30:00Z'', PrintSubject ''Test Email'',
                      ScreenshotGenerated ''screenshots/2025-10-24-14-30-00.png'',
                      FailedToMove (Errorf ''move failed'')]\<rparr>)"
  using move_failure_counts_failed
    [of "MockEmailClient_client (sampleMock\<lparr>moveEmailError := Some (Errorf ''move failed'')\<rparr>)"
        "''2025-10-24T14:30:00Z''" "fresh ([]::(string \<times> bytes) list)"
        "htmlEmail ''2025-10-24T14:30:00Z'' ''2024-01-01T00:00:00Z''" "[]" "[]"
        "ScreenshotGenerator_service sampleRenderLibrary sampleGenerator"
        "''screenshots/2025-10-24-14-30-00.png''"
        "[(''screenshots/2025-10-24-14-30-00.png'', ''PNG'')]"
        "\<lparr>Mailbox_ID = ''src-123'', Mailbox_Name = ''_aar'', Role = ''''\<rparr>"
        "\<lparr>Mailbox_ID = ''arch-456'', Mailbox_Name = ''_aar_processed'', Role = ''''\<rparr>"
        "Errorf ''move failed''" "[(''screenshots/2025-10-24-14-30-00.png'', ''PNG'')]"
        1 0 "[]" "\<lparr>processedCount = 0, failedCount = 0\<rparr>"]
  by (simp add: run_defs)

section \<open>Dry runs\<close>

lemma dryRunLoop_calls: "calls (dryRunLoop i emailIDs s) = calls s"
  by (induction emailIDs arbitrary: i s) (simp_all add: Fprint_def)

lemma dryRunLoop_world: "world (dryRunLoop i emailIDs s) = world s"
  by (induction emailIDs arbitrary: i s) (simp_all add: Fprint_def)

text \<open>
  C5. In a dry run, however the run ends, the calls it adds to the log contain no
  \<^verbatim>\<open>GenerateScreenshot\<close> and no \<^verbatim>\<open>MoveEmail\<close>; and when it returns a result, the
  processed count is 0, whatever the listing returned.
\<close>

theorem dry_run_processes_nothing:
  assumes "processEmails client generator limit True s = (res, s')"
  shows "(\<forall>result. res = Ok result \<longrightarrow> ProcessedCount result = 0) \<and>
         (\<exists>new. calls s' = calls s @ new \<and>
                (\<forall>timestamp htmlContent. CallGenerateScreenshot timestamp htmlContent \<notin> set new) \<and>
                (\<forall>emailID source target. CallMoveEmail emailID source target \<notin> set new))"
  using assms
  by (auto simp: processEmails_def call_FindMailboxByName_def call_GetEmailsInMailbox_def
        Fprint_def Let_def dryRunLoop_calls
      split: prod.splits outcome.splits option.splits if_splits)

lemma sample_dry_run:
  "processEmails (MockEmailClient_client sampleMock)
     (ScreenshotGenerator_service sampleRenderLibrary sampleGenerator) 0 True (fresh []) =
   (Ok \<lparr>TotalCount = 2, ProcessedCount = 0, FailedCount = 0\<rparr>,
    \<lparr>world = [],
     calls = [CallFindMailboxByName ''_aar'', CallFindMailboxByName ''_aar_processed'',
              CallGetEmailsInMailbox ''src-123'' 0],
     outputLog = [FoundEmails 2 ''_aar'', DryRunMode, WouldProcess 2,
                  DryRunEmailID 1 ''2025-10-24T14:30:00Z'', DryRunEmailID 2 ''email2'']\<rparr>)"
  by (simp add: run_defs)

theorem dry_run_processes_nothing_witness:
  "processEmails (MockEmailClient_client sampleMock)
     (ScreenshotGenerator_service sampleRenderLibrary sampleGenerator) 0 True (fresh []) =
   (Ok \<lparr>TotalCount = 2, ProcessedCount = 0, FailedCount = 0\<rparr>,
    \<lparr>world = [],
     calls = [CallFindMailboxByName ''_aar'', CallFindMailboxByName ''_aar_processed'',
              CallGetEmailsInMailbox ''src-123'' 0],
     outputLog = [FoundEmails 2 ''_aar'', DryRunMode, WouldProcess 2,
                  DryRunEmailID 1 ''2025-10-24T14:30:00Z'', DryRunEmailID 2 ''email2'']\<rparr>)
   \<and> ProcessedCount \<lparr>TotalCount = 2, ProcessedCount = 0, FailedCount = 0\<rparr> = 0"
  using dry_run_processes_nothing [OF sample_dry_run] sample_dry_run
  by simp

section \<open>Fatal errors\<close>

text \<open>
  C6. If resolving the source folder fails, the run returns an error that wraps the
  failure and whose message contains "source folder"; the only call made is that
  resolution, so nothing is listed, fetched, rendered or moved. Likewise, if resolving
  the archive folder fails, the calls made are the two resolutions, and if the listing
  fails, the two resolutions and the listing: no message is fetched, rendered or moved.
  Nothing is printed in the three cases. This holds in a dry run as well.
\<close>

theorem folder_or_listing_failure_is_fatal:
  "(FindMailboxByName client sourceFolder (world s) = (Err err, w1) \<longrightarrow>
      processEmails client generator limit dryRun s =
        (Err (Wrapf ''failed to find source folder '_aar': '' err),
         s\<lparr>world := w1, calls := calls s @ [CallFindMailboxByName sourceFolder]\<rparr>) \<and>
      (\<exists>before after.
         Error (Wrapf ''failed to find source folder '_aar': '' err)
           = before @ ''source folder'' @ after)) \<and>
   (FindMailboxByName client sourceFolder (world s) = (Ok source, w1) \<and>
    FindMailboxByName client archiveFolder w1 = (Err err, w2) \<longrightarrow>
      processEmails client generator limit dryRun s =
        (Err (Wrapf ''failed to find archive folder '_aar_processed': '' err),
         s\<lparr>world := w2,
           calls := calls s @ [CallFindMailboxByName sourceFolder,
                               CallFindMailboxByName archiveFolder]\<rparr>)) \<and>
   (FindMailboxByName client sourceFolder (world s) = (Ok (Some mailbox), w1) \<and>
    FindMailboxByName client archiveFolder w1 = (Ok archive, w2) \<and>
    GetEmailsInMailbox client (Mailbox_ID mailbox) limit w2 = (Err err, w3) \<longrightarrow>
      processEmails client generator limit dryRun s =
        (Err (Wrapf ''failed to retrieve emails: '' err),
         s\<lparr>world := w3,
           calls := calls s @ [CallFindMailboxByName sourceFolder,
                               CallFindMailboxByName archiveFolder,
                               CallGetEmailsInMailbox (Mailbox_ID mailbox) limit]\<rparr>))"
proof (intro conjI impI)
  show "\<exists>before after.
         Error (Wrapf ''failed to find source folder '_aar': '' err)
           = before @ ''source folder'' @ after"
    by (rule exI [of _ "''failed to find ''"], rule exI [of _ "'' '_aar': '' @ Error err"]) simp
qed (simp_all add: processEmails_def call_FindMailboxByName_def call_GetEmailsInMailbox_def
       sourceFolder_def archiveFolder_def)

text \<open>
  The three failures on the mock client: no source folder
  (\<^verbatim>\<open>TestProcessEmails_SourceFolderNotFound\<close>), no archive folder
  (\<^verbatim>\<open>TestProcessEmails_ArchiveFolderNotFound\<close>), and a failing listing.
\<close>

theorem folder_or_listing_failure_is_fatal_witness:
  "processEmails (MockEmailClient_client (sampleMock\<lparr>mailboxes := Map.empty\<rparr>))
     (ScreenshotGenerator_service sampleRenderLibrary sampleGenerator) 0 False (fresh [])
   = (Err (Wrapf ''failed to find source folder '_aar': '' (Errorf ''mailbox not found'')),
      \<lparr>world = [], calls = [CallFindMailboxByName ''_aar''], outputLog = []\<rparr>)
   \<and> Error (Wrapf ''failed to find source folder '_aar': '' (Errorf ''mailbox not found''))
       = ''failed to find source folder '_aar': mailbox not found''
   \<and> processEmails
       (MockEmailClient_client
          (sampleMock\<lparr>mailboxes :=
             [sourceFolder \<mapsto> Some \<lparr>Mailbox_ID = ''src-123'', Mailbox_Name = sourceFolder, Role = ''''\<rparr>]\<rparr>))
       (ScreenshotGenerator_service sampleRenderLibrary sampleGenerator) 0 False (fresh [])
     = (Err (Wrapf ''failed to find archive folder '_aar_processed': '' (Errorf ''mailbox not found'')),
        \<lparr>world = [],
         calls = [CallFindMailboxByName ''_aar'', CallFindMailboxByName ''_aar_processed''],
         outputLog = []\<rparr>)
   \<and> processEmails
       (MockEmailClient_client (sampleMock\<lparr>getEmailsError := Some (Errorf ''listing failed'')\<rparr>))
       (ScreenshotGenerator_service sampleRenderLibrary sampleGenerator) 0 False (fresh [])
     = (Err (Wrapf ''failed to retrieve emails: '' (Errorf ''listing failed'')),
        \<lparr>world = [],
         calls = [CallFindMailboxByName ''_aar'', CallFindMailboxByName ''_aar_processed'',
                  CallGetEmailsInMailbox ''src-123'' 0],
         outputLog = []\<rparr>)"
  using
    folder_or_listing_failure_is_fatal
      [where client = "MockEmailClient_client (sampleMock\<lparr>mailboxes := Map.empty\<rparr>)"
         and s = "fresh ([]::(string \<times> bytes) list)" and err = "Errorf ''mailbox not found''"
         and ?w1.0 = "[]"
         and generator = "ScreenshotGenerator_service sampleRenderLibrary sampleGenerator"
         and limit = 0 and dryRun = False]
    folder_or_listing_failure_is_fatal
      [where client = "MockEmailClient_client
             (sampleMock\<lparr>mailboxes :=
                [sourceFolder \<mapsto> Some \<lparr>Mailbox_ID = ''src-123'', Mailbox_Name = sourceFolder, Role = ''''\<rparr>]\<rparr>)"
         and s = "fresh ([]::(string \<times> bytes) list)" and err = "Errorf ''mailbox not found''"
         and ?w1.0 = "[]" and ?w2.0 = "[]"
         and source = "Some \<lparr>Mailbox_ID = ''src-123'', Mailbox_Name = sourceFolder, Role = ''''\<rparr>"
         and generator = "ScreenshotGenerator_service sampleRenderLibrary sampleGenerator"
         and limit = 0 and dryRun = False]
    folder_or_listing_failure_is_fatal
      [where client = "MockEmailClient_client (sampleMock\<lparr>getEmailsError := Some (Errorf ''listing failed'')\<rparr>)"
         and s = "fresh ([]::(string \<times> bytes) list)" and err = "Errorf ''listing failed''"
         and ?w1.0 = "[]" and ?w2.0 = "[]" and ?w3.0 = "[]"
         and mailbox = "\<lparr>Mailbox_ID = ''src-123'', Mailbox_Name = sourceFolder, Role = ''''\<rparr>"
         and archive = "Some \<lparr>Mailbox_ID = ''arch-456'', Mailbox_Name = archiveFolder, Role = ''''\<rparr>"
         and generator = "ScreenshotGenerator_service sampleRenderLibrary sampleGenerator"
         and limit = 0 and dryRun = False]
  by (simp add: run_defs)

section \<open>The file a render writes, and what the loop hands to the render\<close>

text \<open>
  What \<^verbatim>\<open>GenerateScreenshot\<close> does when it succeeds: its first argument parsed as an
  RFC 3339 timestamp \<open>t\<close>; the path is the output directory joined with \<open>t\<close> formatted
  by the layout \<^verbatim>\<open>2006-01-02-15-04-05\<close> and \<^verbatim>\<open>.png\<close>; the browser ran once, and its
  buffer was written, once, to that path, which is also the path returned.
\<close>

lemma GenerateScreenshot_names_file:
  assumes "ScreenshotGenerator_GenerateScreenshot lib sg timestamp htmlContent w = (Ok path, w')"
  shows "\<exists>t buf w1.
           time_Parse lib RFC3339 timestamp = Inr t \<and>
           path = filepath_Join lib
                    [outputDir sg, time_Format lib t ''2006-01-02-15-04-05'' @ ''.png''] \<and>
           chromedp_Run lib 30
             [EmulateViewport (width sg) (height sg),
              Navigate (''data:text/html;charset=utf-8,''
                        @ url_PathEscape lib (fullHTML htmlContent)),
              WaitReady ''body'', Sleep 500, FullScreenshot 90] w = (Inr buf, w1) \<and>
           os_WriteFile lib path buf 0x1A4 w1 = (None, w')"
  using assms
  by (auto simp: ScreenshotGenerator_GenerateScreenshot_def Let_def
      split: sum.splits prod.splits option.splits)

text \<open>
  In an iteration of the loop the render is called at most with the message identifier as
  its first argument; \<^verbatim>\<open>email.ReceivedAt\<close> is never passed to it.
\<close>

lemma processEmail_renders_identifier:
  assumes "processEmail client generator source archive n i emailID cnt s = (r, s')"
  shows "\<exists>new. calls s' = calls s @ new \<and>
           (\<forall>timestamp htmlContent.
              CallGenerateScreenshot timestamp htmlContent \<in> set new \<longrightarrow> timestamp = emailID)"
  using assms
  by (auto simp: processEmail_def call_GetEmails_def call_GenerateScreenshot_def
        call_MoveEmail_def Fprint_def Let_def
      split: prod.splits outcome.splits option.splits if_splits)

text \<open>
  C2. The claim names the file after the message's received timestamp
  (\<^verbatim>\<open>YYYY-MM-DD-HH-MM-SS.png\<close>) or after its identifier (\<^verbatim>\<open><id>.png\<close>). The run below
  has one message, with identifier \<^verbatim>\<open>2025-10-24T14:30:00Z\<close>, received at
  \<^verbatim>\<open>2024-01-01T00:00:00Z\<close>. Its file is \<^verbatim>\<open>screenshots/2025-10-24-14-30-00.png\<close>:
  the identifier, read as a timestamp and formatted; neither the received timestamp
  formatted (\<^verbatim>\<open>2024-01-01-00-00-00.png\<close>) nor \<^verbatim>\<open><id>.png\<close>.
\<close>

theorem artifact_named_after_identifier_read_as_timestamp:
  "processEmails (MockEmailClient_client sampleMock)
     (ScreenshotGenerator_service sampleRenderLibrary sampleGenerator) 1 False (fresh []) =
   (Ok \<lparr>TotalCount = 1, ProcessedCount = 1, FailedCount = 0\<rparr>,
    \<lparr>world = [(''screenshots/2025-10-24-14-30-00.png'', ''PNG'')],
     calls = [CallFindMailboxByName ''_aar'', CallFindMailboxByName ''_aar_processed'',
              CallGetEmailsInMailbox ''src-123'' 1,
              CallGetEmails [''2025-10-24T14:30:00Z''],
              CallGenerateScreenshot ''2025-10-24T14:30:00Z'' ''<p>Test</p>'',
              CallMoveEmail ''2025-10-24T14:30:00Z'' ''src-123'' ''arch-456''],
     outputLog = [FoundEmails 1 ''_aar'', ProcessingEmail 1 1 ''2025-10-24T14:30:00Z'',
                  PrintSubject ''Test Email'',
                  ScreenshotGenerated ''screenshots/2025-10-24-14-30-00.png'',
                  MovedToArchive]\<rparr>)
   \<and> map_option ReceivedAt (emailDetails sampleMock ''2025-10-24T14:30:00Z'')
       = Some ''2024-01-01T00:00:00Z''
   \<and> ''screenshots/2025-10-24-14-30-00.png'' \<noteq> ''screenshots/2024-01-01-00-00-00.png''
   \<and> ''screenshots/2025-10-24-14-30-00.png'' \<noteq> ''screenshots/2025-10-24T14:30:00Z.png''"
  by (simp add: run_defs)

section \<open>Identifiers that are not timestamps\<close>

lemma GenerateScreenshot_parse_error:
  assumes "time_Parse lib RFC3339 timestamp = Inl msg"
  shows "ScreenshotGenerator_GenerateScreenshot lib sg timestamp htmlContent w
           = (Err (Wrapf ''failed to parse timestamp: '' (LibError msg)), w)"
  using assms by (simp add: ScreenshotGenerator_GenerateScreenshot_def)

lemma processEmail_unparsable:
  assumes "time_Parse lib RFC3339 emailID = Inl msg"
  shows "\<exists>s' new.
           (processEmail client (ScreenshotGenerator_service lib sg) source archive n i emailID cnt s
              = (Next (cnt\<lparr>failedCount := failedCount cnt + 1\<rparr>), s') \<or>
            (\<exists>m w'. GetEmails client [emailID] (world s) = (Panic m, w') \<and>
              processEmail client (ScreenshotGenerator_service lib sg) source archive n i emailID cnt s
              = (Panicked m, s'))) \<and>
           calls s' = calls s @ new \<and>
           (\<forall>a b d. CallMoveEmail a b d \<notin> set new)"
proof -
  obtain r w1 where fetch: "GetEmails client [emailID] (world s) = (r, w1)"
    by (cases "GetEmails client [emailID] (world s)")
  show ?thesis
  proof (cases r)
    case (Panic m)
    with fetch show ?thesis
      by (simp add: processEmail_def call_GetEmails_def Fprint_def Let_def)
  next
    case (Err err)
    with fetch show ?thesis
      by (simp add: processEmail_def call_GetEmails_def Fprint_def Let_def)
  next
    case (Ok emails)
    show ?thesis
    proof (cases "emails = [] \<or> extractHTMLContent (emails ! 0) = ''''")
      case True
      with fetch Ok show ?thesis
        by (auto simp: processEmail_def call_GetEmails_def Fprint_def Let_def)
    next
      case False
      with fetch Ok GenerateScreenshot_parse_error [OF assms] show ?thesis
        by (simp add: processEmail_def call_GetEmails_def call_GenerateScreenshot_def
            ScreenshotGenerator_service_def Fprint_def Let_def)
    qed
  qed
qed

text \<open>
  C9, as the code has it. When \<^verbatim>\<open>time.Parse\<close> rejects the first argument under the
  layout \<^verbatim>\<open>time.RFC3339\<close>, \<^verbatim>\<open>GenerateScreenshot\<close> returns the error ``failed to
  parse timestamp'' and leaves the world as it was: the browser is not run and no file is
  written. The loop passes the message identifier as that argument, so an iteration for
  an identifier that \<^verbatim>\<open>time.Parse\<close> rejects ends with the failed counter incremented
  and the processed counter unchanged, and adds no \<^verbatim>\<open>MoveEmail\<close> to the call log. (The
  one other way the iteration can end is a panic of the client's fetch, which ends the
  run; no move is made then either.)
\<close>

theorem unparsable_identifier_fails_and_is_not_moved:
  assumes "time_Parse lib RFC3339 emailID = Inl msg"
  shows "ScreenshotGenerator_GenerateScreenshot lib sg emailID htmlContent w
           = (Err (Wrapf ''failed to parse timestamp: '' (LibError msg)), w) \<and>
         (\<exists>s' new.
            (processEmail client (ScreenshotGenerator_service lib sg) source archive n i emailID cnt s
               = (Next (cnt\<lparr>failedCount := failedCount cnt + 1\<rparr>), s') \<or>
             (\<exists>m w'. GetEmails client [emailID] (world s) = (Panic m, w') \<and>
               processEmail client (ScreenshotGenerator_service lib sg) source archive n i emailID cnt s
               = (Panicked m, s'))) \<and>
            calls s' = calls s @ new \<and>
            (\<forall>a b d. CallMoveEmail a b d \<notin> set new))"
  using GenerateScreenshot_parse_error [OF assms] processEmail_unparsable [OF assms]
  by blast

text \<open>A message with an HTML body and an ordinary identifier, \<^verbatim>\<open>M123\<close>.\<close>

theorem unparsable_identifier_fails_and_is_not_moved_witness:
  "time_Parse sampleRenderLibrary RFC3339 ''M123'' = Inl ''cannot parse''
   \<and> ScreenshotGenerator_GenerateScreenshot sampleRenderLibrary sampleGenerator
        ''M123'' ''<p>Test</p>'' []
       = (Err (Wrapf ''failed to parse timestamp: '' (LibError ''cannot parse'')), [])
   \<and> processEmail
        (MockEmailClient_client
           (sampleMock\<lparr>emailDetails := [''M123'' \<mapsto> htmlEmail ''M123'' ''2025-10-24T14:30:00Z'']\<rparr>))
        (ScreenshotGenerator_service sampleRenderLibrary sampleGenerator)
        \<lparr>Mailbox_ID = ''src-123'', Mailbox_Name = ''_aar'', Role = ''''\<rparr>
        (Some \<lparr>Mailbox_ID = ''arch-456'', Mailbox_Name = ''_aar_processed'', Role = ''''\<rparr>)
        1 0 ''M123'' \<lparr>processedCount = 0, failedCount = 0\<rparr> (fresh [])
       = (Next \<lparr>processedCount = 0, failedCount = 1\<rparr>,
          \<lparr>world = [],
           calls = [CallGetEmails [''M123''], CallGenerateScreenshot ''M123'' ''<p>Test</p>''],
           outputLog = [ProcessingEmail 1 1 ''M123'', PrintSubject ''Test Email'',
                        FailedToGenerate
                          (Wrapf ''failed to parse timestamp: '' (LibError ''cannot parse''))]\<rparr>)"
  using unparsable_identifier_fails_and_is_not_moved
    [where lib = sampleRenderLibrary and emailID = "''M123''" and msg = "''cannot parse''"
       and sg = sampleGenerator and htmlContent = "''<p>Test</p>''" and w = "[]"]
  by (simp add: run_defs)

text \<open>Two timestamps the grammar accepts, and two it does not.\<close>

lemma validRFC3339_examples:
  "validRFC3339 ''2025-10-24T14:30:00Z''"
  "validRFC3339 ''2024-02-29T23:59:60.25+05:30''"
  "\<not> validRFC3339 ''2025-02-29T01:30:00Z''"
  "\<not> validRFC3339 ''M123''"
  by (simp_all add: validRFC3339_def validOffset_def decimal_def isDigit_def digitValue_def
      daysIn_def leapYear_def Let_def)

text \<open>
  C9, as the claim has it, speaks of every first argument that is not a valid RFC 3339
  timestamp. \<^verbatim>\<open>2025-10-24T1:30:00Z\<close> is not one, its hour has one digit; but
  \<^verbatim>\<open>time.Parse\<close> takes it. With that identifier and an HTML body the file is written,
  and the message is moved and counted as processed.
\<close>

theorem lenient_parse_counterexample:
  "\<not> validRFC3339 ''2025-10-24T1:30:00Z''
   \<and> ScreenshotGenerator_GenerateScreenshot lenientRenderLibrary sampleGenerator
        ''2025-10-24T1:30:00Z'' ''<p>Test</p>'' []
     = (Ok ''screenshots/2025-10-24-01-30-00.png'',
        [(''screenshots/2025-10-24-01-30-00.png'', ''PNG'')])
   \<and> processEmail
        (MockEmailClient_client
           (sampleMock\<lparr>emailDetails :=
              [''2025-10-24T1:30:00Z'' \<mapsto> htmlEmail ''2025-10-24T1:30:00Z'' ''2025-10-24T14:30:00Z'']\<rparr>))
        (ScreenshotGenerator_service lenientRenderLibrary sampleGenerator)
        \<lparr>Mailbox_ID = ''src-123'', Mailbox_Name = ''_aar'', Role = ''''\<rparr>
        (Some \<lparr>Mailbox_ID = ''arch-456'', Mailbox_Name = ''_aar_processed'', Role = ''''\<rparr>)
        1 0 ''2025-10-24T1:30:00Z'' \<lparr>processedCount = 0, failedCount = 0\<rparr> (fresh [])
     = (Next \<lparr>processedCount = 1, failedCount = 0\<rparr>,
        \<lparr>world = [(''screenshots/2025-10-24-01-30-00.png'', ''PNG'')],
         calls = [CallGetEmails [''2025-10-24T1:30:00Z''],
                  CallGenerateScreenshot ''2025-10-24T1:30:00Z'' ''<p>Test</p>'',
                  CallMoveEmail ''2025-10-24T1:30:00Z'' ''src-123'' ''arch-456''],
         outputLog = [ProcessingEmail 1 1 ''2025-10-24T1:30:00Z'', PrintSubject ''Test Email'',
                      ScreenshotGenerated ''screenshots/2025-10-24-01-30-00.png'',
                      MovedToArchive]\<rparr>)"
  by (simp add: run_defs lenientRenderLibrary_def validRFC3339_def)

text \<open>
  Over a whole loop: when none of the identifiers parses, a loop that ends without a
  panic has counted every message as failed and has moved none.
\<close>

lemma processLoop_unparsable:
  assumes "\<forall>emailID \<in> set emailIDs. \<exists>msg. time_Parse lib RFC3339 emailID = Inl msg"
      and "processLoop client (ScreenshotGenerator_service lib sg) source archive n i emailIDs cnt s
             = (Next cnt', s')"
  shows "processedCount cnt' = processedCount cnt \<and>
         failedCount cnt' = failedCount cnt + int (length emailIDs) \<and>
         (\<exists>new. calls s' = calls s @ new \<and> (\<forall>a b d. CallMoveEmail a b d \<notin> set new))"
  using assms
proof (induction emailIDs arbitrary: i cnt s)
  case Nil
  then show ?case by simp
next
  case (Cons emailID rest)
  from Cons.prems(1) obtain msg where parse: "time_Parse lib RFC3339 emailID = Inl msg"
    by auto
  from Cons.prems(2) obtain cnt1 s1 where
    step: "processEmail client (ScreenshotGenerator_service lib sg) source archive n i emailID cnt s
             = (Next cnt1, s1)" and
    rest: "processLoop client (ScreenshotGenerator_service lib sg) source archive n (i + 1) rest
             cnt1 s1 = (Next cnt', s')"
    by (auto split: prod.splits iteration.splits)
  from processEmail_unparsable [OF parse, of client sg source archive n i cnt s] step
  obtain new1 where
    cnt1: "cnt1 = cnt\<lparr>failedCount := failedCount cnt + 1\<rparr>" and
    new1: "calls s1 = calls s @ new1" "\<forall>a b d. CallMoveEmail a b d \<notin> set new1"
    by auto
  from Cons.prems(1) have "\<forall>emailID \<in> set rest. \<exists>msg. time_Parse lib RFC3339 emailID = Inl msg"
    by simp
  from Cons.IH [OF this rest] obtain new2 where
    counts: "processedCount cnt' = processedCount cnt1"
            "failedCount cnt' = failedCount cnt1 + int (length rest)" and
    new2: "calls s' = calls s1 @ new2" "\<forall>a b d. CallMoveEmail a b d \<notin> set new2"
    by auto
  from new1 new2 have "calls s' = calls s @ (new1 @ new2)"
    and "\<forall>a b d. CallMoveEmail a b d \<notin> set (new1 @ new2)"
    by auto
  with counts cnt1 show ?case by auto
qed

section \<open>FindMailboxByName (jmap.go)\<close>

lemmas jmap_defs =
  JMAPClient_MoveEmail_def JMAPClient_FindMailboxByName_def FindMailboxByName_list_def
  makeRequest_def scriptedLibrary_def marshalString_def postRequest_def sampleJMAPClient_def
  mailboxNotFound_def readOnlyKey_def Let_def










section \<open>MoveEmail (jmap.go)\<close>

lemma mapLiteral_one: "mapLiteral [(k, v)] = [(k, v)]"
  by (simp add: mapLiteral_def)

lemma mapLiteral_two:
  "mapLiteral [(k1, v1), (k2, v2)] = (if k1 = k2 then [(k1, v2)] else [(k1, v1), (k2, v2)])"
  by (simp add: mapLiteral_def)

lemma MoveEmail_methodCalls_eq:
  "MoveEmail_methodCalls c emailID source target =
     [JArray [JString ''Email/set'',
              JObject [(''accountId'', JString (accountID c)),
                       (''update'',
                        JObject [(emailID, JObject (MoveEmail_update source target))])],
              JString ''0''] ]"
  by (simp add: MoveEmail_methodCalls_def mapLiteral_two mapLiteral_one)

lemma MoveEmail_update_target:
  "map_of (MoveEmail_update source target) (''mailboxIds/'' @ target) = Some (JBool True)"
  by (simp add: MoveEmail_update_def mapLiteral_two)

lemma MoveEmail_update_source:
  "source \<noteq> target \<Longrightarrow>
   map_of (MoveEmail_update source target) (''mailboxIds/'' @ source) = Some JNull"
  by (simp add: MoveEmail_update_def mapLiteral_two)

lemma MoveEmail_update_keys:
  "set (map fst (MoveEmail_update source target))
     = {''mailboxIds/'' @ source, ''mailboxIds/'' @ target}"
  by (simp add: MoveEmail_update_def mapLiteral_two)

text \<open>
  \<^verbatim>\<open>makeRequest\<close> sends one request when the body marshals and the URL is accepted, and
  none otherwise; \<^verbatim>\<open>MoveEmail\<close> touches the world through \<^verbatim>\<open>makeRequest\<close> only.
\<close>

lemma makeRequest_world:
  assumes "json_Marshal lib (requestBody methodCalls) = Inr jsonData"
      and "http_NewRequest lib ''POST'' (apiURL c) = None"
  shows "snd (makeRequest lib c methodCalls w) = snd (http_Do lib (postRequest c jsonData) w)"
  using assms
  by (auto simp: makeRequest_def split: prod.splits sum.splits option.splits)

lemma makeRequest_world_unsent:
  assumes "(\<exists>err. json_Marshal lib (requestBody methodCalls) = Inl err) \<or>
           (\<exists>err. http_NewRequest lib ''POST'' (apiURL c) = Some err)"
  shows "snd (makeRequest lib c methodCalls w) = w"
  using assms
  by (auto simp: makeRequest_def split: prod.splits sum.splits option.splits)

lemma MoveEmail_world:
  "snd (JMAPClient_MoveEmail lib c emailID source target w)
     = snd (makeRequest lib c (MoveEmail_methodCalls c emailID source target) w)"
  by (auto simp: JMAPClient_MoveEmail_def Let_def
      split: prod.splits outcome.splits sum.splits option.splits json.splits)

lemma MoveEmail_error_response:
  assumes "makeRequest lib c (MoveEmail_methodCalls c emailID source target) w
             = (Ok responseData, w')"
      and "json_Unmarshal_methodResponses lib responseData = Inr (first # others)"
      and "1 < length first"
      and "first ! 0 = JString ''error''"
  shows "(\<exists>err. JMAPClient_MoveEmail lib c emailID source target w = (Err err, w')) \<and>
         (\<forall>errorResp.
            json_Unmarshal_errorResp lib (marshalString lib (first ! 1)) = Inr errorResp \<and>
            ErrorType errorResp = ''accountReadOnly'' \<longrightarrow>
            JMAPClient_MoveEmail lib c emailID source target w = (Err readOnlyKey, w'))"
  using assms
  by (auto simp: JMAPClient_MoveEmail_def Let_def split: sum.splits)

lemma MoveEmail_set_response:
  assumes "makeRequest lib c (MoveEmail_methodCalls c emailID source target) w
             = (Ok responseData, w')"
      and "json_Unmarshal_methodResponses lib responseData = Inr (first # others)"
      and "1 < length first"
      and "first ! 0 \<noteq> JString ''error''"
      and "json_Marshal lib (first ! 1) = Inr setResponseData"
      and "json_Unmarshal_setResponse lib setResponseData = Inr setResponse"
  shows "JMAPClient_MoveEmail lib c emailID source target w =
           (case NotUpdated setResponse emailID of
              Some notUpdated \<Rightarrow>
                (Err (Errorf (''failed to move email: '' @ marshalString lib notUpdated)), w')
            | None \<Rightarrow> (Ok (), w'))"
  using assms
  by (auto simp: JMAPClient_MoveEmail_def Let_def split: json.splits option.splits)

text \<open>
  C8, as the code has it. \<^verbatim>\<open>MoveEmail\<close> builds one method call, an \<^verbatim>\<open>Email/set\<close>
  whose update for the email sets \<^verbatim>\<open>mailboxIds/<target>\<close> to true and, when source
  and target differ, \<^verbatim>\<open>mailboxIds/<source>\<close> to null, and has no other key; it sends
  it in one request. When the request succeeds and the reply decodes to a list of method
  responses whose first has at least two elements:
  \<^item> if the first method response is an error response, \<^verbatim>\<open>MoveEmail\<close> returns an error,
    and it is the read-only-credential error when the decoded type is
    \<^verbatim>\<open>accountReadOnly\<close>;
  \<^item> if it is not, and the set response decodes, \<^verbatim>\<open>MoveEmail\<close> returns an error when
    \<^verbatim>\<open>notUpdated\<close> has the email, and success when it has not.
\<close>

theorem MoveEmail_request_and_result:
  "MoveEmail_methodCalls c emailID source target =
     [JArray [JString ''Email/set'',
              JObject [(''accountId'', JString (accountID c)),
                       (''update'',
                        JObject [(emailID, JObject (MoveEmail_update source target))])],
              JString ''0''] ] \<and>
   map_of (MoveEmail_update source target) (''mailboxIds/'' @ target) = Some (JBool True) \<and>
   (source \<noteq> target \<longrightarrow>
      map_of (MoveEmail_update source target) (''mailboxIds/'' @ source) = Some JNull) \<and>
   set (map fst (MoveEmail_update source target))
     = {''mailboxIds/'' @ source, ''mailboxIds/'' @ target} \<and>
   (json_Marshal lib (requestBody (MoveEmail_methodCalls c emailID source target)) = Inr jsonData \<and>
    http_NewRequest lib ''POST'' (apiURL c) = None \<longrightarrow>
      snd (JMAPClient_MoveEmail lib c emailID source target w)
        = snd (http_Do lib (postRequest c jsonData) w)) \<and>
   (makeRequest lib c (MoveEmail_methodCalls c emailID source target) w = (Ok responseData, w') \<and>
    json_Unmarshal_methodResponses lib responseData = Inr (first # others) \<and>
    1 < length first \<longrightarrow>
      (first ! 0 = JString ''error'' \<longrightarrow>
         (\<exists>err. JMAPClient_MoveEmail lib c emailID source target w = (Err err, w')) \<and>
         (\<forall>errorResp.
            json_Unmarshal_errorResp lib (marshalString lib (first ! 1)) = Inr errorResp \<and>
            ErrorType errorResp = ''accountReadOnly'' \<longrightarrow>
            JMAPClient_MoveEmail lib c emailID source target w = (Err readOnlyKey, w'))) \<and>
      (first ! 0 \<noteq> JString ''error'' \<longrightarrow>
         (\<forall>setResponseData setResponse.
            json_Marshal lib (first ! 1) = Inr setResponseData \<and>
            json_Unmarshal_setResponse lib setResponseData = Inr setResponse \<longrightarrow>
            JMAPClient_MoveEmail lib c emailID source target w =
              (case NotUpdated setResponse emailID of
                 Some notUpdated \<Rightarrow>
                   (Err (Errorf (''failed to move email: '' @ marshalString lib notUpdated)), w')
               | None \<Rightarrow> (Ok (), w')))))"
proof (intro conjI impI allI)
  show "MoveEmail_methodCalls c emailID source target =
     [JArray [JString ''Email/set'',
              JObject [(''accountId'', JString (accountID c)),
                       (''update'',
                        JObject [(emailID, JObject (MoveEmail_update source target))])],
              JString ''0''] ]"
    by (rule MoveEmail_methodCalls_eq)
  show "map_of (MoveEmail_update source target) (''mailboxIds/'' @ target) = Some (JBool True)"
    by (rule MoveEmail_update_target)
  show "set (map fst (MoveEmail_update source target))
     = {''mailboxIds/'' @ source, ''mailboxIds/'' @ target}"
    by (rule MoveEmail_update_keys)
next
  assume "source \<noteq> target"
  then show "map_of (MoveEmail_update source target) (''mailboxIds/'' @ source) = Some JNull"
    by (rule MoveEmail_update_source)
next
  assume "json_Marshal lib (requestBody (MoveEmail_methodCalls c emailID source target))
            = Inr jsonData \<and> http_NewRequest lib ''POST'' (apiURL c) = None"
  then show "snd (JMAPClient_MoveEmail lib c emailID source target w)
        = snd (http_Do lib (postRequest c jsonData) w)"
    by (simp add: MoveEmail_world makeRequest_world)
next
  assume reply: "makeRequest lib c (MoveEmail_methodCalls c emailID source target) w
                   = (Ok responseData, w') \<and>
                 json_Unmarshal_methodResponses lib responseData = Inr (first # others) \<and>
                 1 < length first"
     and error: "first ! 0 = JString ''error''"
  from MoveEmail_error_response [of lib c emailID source target w responseData w' first others]
    reply error
  show "\<exists>err. JMAPClient_MoveEmail lib c emailID source target w = (Err err, w')"
    by blast
  fix errorResp
  assume "json_Unmarshal_errorResp lib (marshalString lib (first ! 1)) = Inr errorResp \<and>
          ErrorType errorResp = ''accountReadOnly''"
  with MoveEmail_error_response [of lib c emailID source target w responseData w' first others]
    reply error
  show "JMAPClient_MoveEmail lib c emailID source target w = (Err readOnlyKey, w')"
    by blast
next
  fix setResponseData setResponse
  assume "makeRequest lib c (MoveEmail_methodCalls c emailID source target) w
            = (Ok responseData, w') \<and>
          json_Unmarshal_methodResponses lib responseData = Inr (first # others) \<and>
          1 < length first"
     and "first ! 0 \<noteq> JString ''error''"
     and "json_Marshal lib (first ! 1) = Inr setResponseData \<and>
          json_Unmarshal_setResponse lib setResponseData = Inr setResponse"
  then show "JMAPClient_MoveEmail lib c emailID source target w =
              (case NotUpdated setResponse emailID of
                 Some notUpdated \<Rightarrow>
                   (Err (Errorf (''failed to move email: '' @ marshalString lib notUpdated)), w')
               | None \<Rightarrow> (Ok (), w'))"
    using MoveEmail_set_response
      [of lib c emailID source target w responseData w' first others setResponseData setResponse]
    by blast
qed

text \<open>
  Three servers: one that reports the email as not updated, one that answers with the
  error \<^verbatim>\<open>accountReadOnly\<close>, and one that reports nothing of the kind.
\<close>

theorem MoveEmail_request_and_result_witness:
  "JMAPClient_MoveEmail (setServer [(''M1'', JObject [(''type'', JString ''notFound'')])])
     sampleJMAPClient ''M1'' ''src-123'' ''arch-456'' []
   = (Err (Errorf ''failed to move email: {}''), [postRequest sampleJMAPClient ''{}''])
   \<and> JMAPClient_MoveEmail (errorServer ''accountReadOnly'')
       sampleJMAPClient ''M1'' ''src-123'' ''arch-456'' []
     = (Err readOnlyKey, [postRequest sampleJMAPClient ''{}''])
   \<and> JMAPClient_MoveEmail (setServer []) sampleJMAPClient ''M1'' ''src-123'' ''arch-456'' []
     = (Ok (), [postRequest sampleJMAPClient ''{}''])
   \<and> MoveEmail_update ''src-123'' ''arch-456''
     = [(''mailboxIds/src-123'', JNull), (''mailboxIds/arch-456'', JBool True)]"
  using
    MoveEmail_request_and_result
      [where lib = "setServer [(''M1'', JObject [(''type'', JString ''notFound'')])]"
         and c = sampleJMAPClient and emailID = "''M1''" and source = "''src-123''"
         and target = "''arch-456''" and w = "[]" and jsonData = "''{}''"
         and responseData = "''{}''" and w' = "[postRequest sampleJMAPClient ''{}'']"
         and first = "[JString ''Email/set'',
                       JObject [(''notUpdated'',
                                 JObject [(''M1'', JObject [(''type'', JString ''notFound'')])])],
                       JString ''0'']"
         and others = "[]"]
    MoveEmail_request_and_result
      [where lib = "errorServer ''accountReadOnly''"
         and c = sampleJMAPClient and emailID = "''M1''" and source = "''src-123''"
         and target = "''arch-456''" and w = "[]" and jsonData = "''{}''"
         and responseData = "''{}''" and w' = "[postRequest sampleJMAPClient ''{}'']"
         and first = "[JString ''error'', JObject [(''type'', JString ''accountReadOnly'')],
                       JString ''0'']"
         and others = "[]"]
    MoveEmail_request_and_result
      [where lib = "setServer []"
         and c = sampleJMAPClient and emailID = "''M1''" and source = "''src-123''"
         and target = "''arch-456''" and w = "[]" and jsonData = "''{}''"
         and responseData = "''{}''" and w' = "[postRequest sampleJMAPClient ''{}'']"
         and first = "[JString ''Email/set'', JObject [(''notUpdated'', JObject [])],
                       JString ''0'']"
         and others = "[]"]
  by (simp add: jmap_defs setServer_def errorServer_def MoveEmail_update_def mapLiteral_two)

text \<open>
  C8, as the claim has it, ends with ``it returns success otherwise''. The server below
  answers the request with the method-level error \<^verbatim>\<open>serverFail\<close>: it does not report
  the email as not updated, and its error type is not \<^verbatim>\<open>accountReadOnly\<close>. The call
  returns an error, not success.
\<close>

theorem MoveEmail_other_error_counterexample:
  "JMAPClient_MoveEmail (errorServer ''serverFail'')
     sampleJMAPClient ''M1'' ''src-123'' ''arch-456'' []
   = (Err (Errorf ''JMAP error (serverFail): ''), [postRequest sampleJMAPClient ''{}''])
   \<and> ''serverFail'' \<noteq> ''accountReadOnly''
   \<and> fst (JMAPClient_MoveEmail (errorServer ''serverFail'')
            sampleJMAPClient ''M1'' ''src-123'' ''arch-456'' []) \<noteq> Ok ()"
  by (simp add: jmap_defs errorServer_def)

end
